theory Spec2Isabelle
  imports Complex_Main "HOL-Library.AList"
begin

section \<open>Python values and the runtime\<close>

text \<open>
  The client of \<^verbatim>\<open>custom_components/orange/api.py\<close> works on parsed JSON, which is
  dynamically typed: every \<^verbatim>\<open>.get\<close>, truth test, comparison and iteration of the
  source is defined on whatever value the portal sent. The values are modelled as the
  datatype \<open>json\<close>, Python's exceptions as \<open>exn\<close>, and an operation that can raise
  returns \<open>exn + 'a\<close>.

  Python floats are modelled as exact rationals: rounding, overflow, NaN and infinities
  of IEEE arithmetic are not represented.
\<close>

datatype json =
    JNull
  | JBool bool
  | JInt int
  | JFloat rat
  | JStr string
  | JArr "json list"
  | JObj "(string \<times> json) list"

datatype exn =
    ClientError
  | JSONError
  | AttributeError
  | TypeError
  | ValueError
  | Exception string int

text \<open>
  What the source takes from the platform it runs on: the offset of local time from UTC
  (in seconds, at a given instant in epoch seconds), which \<^verbatim>\<open>datetime.fromtimestamp\<close>
  applies, and \<^verbatim>\<open>str()\<close> of floats, lists and dicts, which is not modelled.
\<close>

record runtime =
  utc_offset :: "int \<Rightarrow> int"
  str_other :: "json \<Rightarrow> string"

text \<open>Python's truth value of a JSON value (\<^verbatim>\<open>if x:\<close>, \<^verbatim>\<open>not x\<close>, \<^verbatim>\<open>x or y\<close>).\<close>

fun truthy :: "json \<Rightarrow> bool" where
  "truthy JNull = False"
| "truthy (JBool b) = b"
| "truthy (JInt i) = (i \<noteq> 0)"
| "truthy (JFloat x) = (x \<noteq> 0)"
| "truthy (JStr s) = (s \<noteq> [])"
| "truthy (JArr xs) = (xs \<noteq> [])"
| "truthy (JObj kvs) = (kvs \<noteq> [])"

definition py_or :: "json \<Rightarrow> json \<Rightarrow> json" where
  "py_or a b = (if truthy a then a else b)"

text \<open>\<^verbatim>\<open>d.get(k, default)\<close> on a dict, and on any value (a non-dict has no \<^verbatim>\<open>get\<close>).\<close>

definition dict_get :: "(string \<times> json) list \<Rightarrow> string \<Rightarrow> json \<Rightarrow> json" where
  "dict_get kvs k d = (case map_of kvs k of None \<Rightarrow> d | Some v \<Rightarrow> v)"

fun py_get :: "json \<Rightarrow> string \<Rightarrow> json \<Rightarrow> exn + json" where
  "py_get (JObj kvs) k d = Inr (dict_get kvs k d)"
| "py_get JNull k d = Inl AttributeError"
| "py_get (JBool b) k d = Inl AttributeError"
| "py_get (JInt i) k d = Inl AttributeError"
| "py_get (JFloat x) k d = Inl AttributeError"
| "py_get (JStr s) k d = Inl AttributeError"
| "py_get (JArr xs) k d = Inl AttributeError"

text \<open>The numeric value of a number; \<^verbatim>\<open>bool\<close> is a subclass of \<^verbatim>\<open>int\<close> in Python.\<close>

fun num_of :: "json \<Rightarrow> rat option" where
  "num_of (JBool b) = Some (if b then 1 else 0)"
| "num_of (JInt i) = Some (of_int i)"
| "num_of (JFloat x) = Some x"
| "num_of JNull = None"
| "num_of (JStr s) = None"
| "num_of (JArr xs) = None"
| "num_of (JObj kvs) = None"

text \<open>\<^verbatim>\<open>for x in v\<close>: a list yields its elements, a dict its keys, a string its characters.\<close>

fun py_iter :: "json \<Rightarrow> exn + json list" where
  "py_iter (JArr xs) = Inr xs"
| "py_iter (JObj kvs) = Inr (map (\<lambda>kv. JStr (fst kv)) kvs)"
| "py_iter (JStr s) = Inr (map (\<lambda>c. JStr [c]) s)"
| "py_iter JNull = Inl TypeError"
| "py_iter (JBool b) = Inl TypeError"
| "py_iter (JInt i) = Inl TypeError"
| "py_iter (JFloat x) = Inl TypeError"

fun py_len :: "json \<Rightarrow> exn + nat" where
  "py_len (JArr xs) = Inr (length xs)"
| "py_len (JObj kvs) = Inr (length kvs)"
| "py_len (JStr s) = Inr (length s)"
| "py_len JNull = Inl TypeError"
| "py_len (JBool b) = Inl TypeError"
| "py_len (JInt i) = Inl TypeError"
| "py_len (JFloat x) = Inl TypeError"

text \<open>Decimal rendering, for \<^verbatim>\<open>str()\<close> of an int and for \<^verbatim>\<open>strftime\<close>.\<close>

definition digit_char :: "nat \<Rightarrow> char" where
  "digit_char d = ''0123456789'' ! (d mod 10)"

fun show_nat :: "nat \<Rightarrow> string" where
  "show_nat n = (if n < 10 then [digit_char n] else show_nat (n div 10) @ [digit_char n])"

declare show_nat.simps [simp del]

definition show_int :: "int \<Rightarrow> string" where
  "show_int i = (if i < 0 then CHR ''-'' # show_nat (nat (- i)) else show_nat (nat i))"

fun py_str :: "runtime \<Rightarrow> json \<Rightarrow> string" where
  "py_str rt JNull = ''None''"
| "py_str rt (JBool b) = (if b then ''True'' else ''False'')"
| "py_str rt (JInt i) = show_int i"
| "py_str rt (JStr s) = s"
| "py_str rt (JFloat x) = str_other rt (JFloat x)"
| "py_str rt (JArr xs) = str_other rt (JArr xs)"
| "py_str rt (JObj kvs) = str_other rt (JObj kvs)"

subsection \<open>\<^verbatim>\<open>datetime.fromtimestamp(ts).strftime("%Y-%m-%d")\<close>\<close>

text \<open>
  The library call of line 336. CPython rounds the timestamp to microseconds (half to
  even), takes the floor second, converts it with the platform's \<^verbatim>\<open>localtime\<close>, and
  raises when the year leaves 1..9999. The date of a day number is the proleptic
  Gregorian one.
\<close>

definition round_half_even :: "rat \<Rightarrow> int" where
  "round_half_even x =
     (let f = \<lfloor>x\<rfloor>; d = x - of_int f
      in if d < 1 / 2 then f else if 1 / 2 < d then f + 1 else if even f then f else f + 1)"

definition civil_from_days :: "int \<Rightarrow> int \<times> int \<times> int" where
  "civil_from_days days =
     (let z = days + 719468;
          era = z div 146097;
          doe = z mod 146097;
          yoe = (doe - doe div 1460 + doe div 36524 - doe div 146096) div 365;
          doy = doe - (365 * yoe + yoe div 4 - yoe div 100);
          mp = (5 * doy + 2) div 153;
          d = doy - (153 * mp + 2) div 5 + 1;
          m = (if mp < 10 then mp + 3 else mp - 9);
          y = yoe + era * 400 + (if m \<le> 2 then 1 else 0)
      in (y, m, d))"

definition fromtimestamp :: "runtime \<Rightarrow> rat \<Rightarrow> exn + int \<times> int \<times> int" where
  "fromtimestamp rt ts =
     (let secs = round_half_even (ts * 1000000) div 1000000;
          local = secs + utc_offset rt secs;
          ymd = civil_from_days (local div 86400)
      in if 1 \<le> fst ymd \<and> fst ymd \<le> 9999 then Inr ymd else Inl ValueError)"

definition pad_left :: "nat \<Rightarrow> string \<Rightarrow> string" where
  "pad_left n s = replicate (n - length s) CHR ''0'' @ s"

definition strftime_ymd :: "int \<times> int \<times> int \<Rightarrow> string" where
  "strftime_ymd ymd =
     (case ymd of (y, m, d) \<Rightarrow>
        pad_left 4 (show_nat (nat y)) @ ''-'' @ pad_left 2 (show_nat (nat m)) @ ''-''
          @ pad_left 2 (show_nat (nat d)))"

section \<open>const.py\<close>

definition BASE_URL :: string where
  "BASE_URL = ''https://www.orange.ro''"

definition MYACCOUNT_URL :: string where
  "MYACCOUNT_URL = BASE_URL @ ''/myaccount/''"

definition API_BASE :: string where
  "API_BASE = BASE_URL @ ''/myaccount/api/v4''"

definition LOGIN_PAGE_URL :: string where
  "LOGIN_PAGE_URL = MYACCOUNT_URL"

definition API_USER_DATA :: string where
  "API_USER_DATA = API_BASE @ ''/userData''"

definition API_PROFILES :: string where
  "API_PROFILES = API_BASE @ ''/profiles''"

definition API_SUBSCRIBERS :: string where
  "API_SUBSCRIBERS = API_BASE @ ''/subscribers''"

definition API_SUBSCRIPTIONS_SUMMARY :: string where
  "API_SUBSCRIPTIONS_SUMMARY = API_BASE @ ''/packages-and-options/subscriptionsSummary''"

text \<open>The two URL templates, already applied to \<^verbatim>\<open>str(profile_id)\<close>.\<close>

definition API_PROFILE_INVOICE_INFO :: "string \<Rightarrow> string" where
  "API_PROFILE_INVOICE_INFO profile_id = API_BASE @ ''/profile/'' @ profile_id @ ''/invoiceInfo''"

definition API_PROFILE_TRANSACTIONS :: "string \<Rightarrow> string" where
  "API_PROFILE_TRANSACTIONS profile_id = API_BASE @ ''/profiles/'' @ profile_id @ ''/transactions''"

section \<open>The HTTP session\<close>

text \<open>
  The \<^verbatim>\<open>aiohttp\<close> session is the client's only contact with the portal. A request is a
  method and the URL it is sent to (the POST also carries its form data; the fixed
  header sets are left out). What comes back is a response, seen through its status, its
  final URL after redirects and its body as \<^verbatim>\<open>response.json()\<close> parses it (\<open>None\<close>
  when that call raises), or an \<^verbatim>\<open>aiohttp.ClientError\<close> raised by the session.

  The portal is any function from the requests sent so far and the current request to
  what comes back, so that cookies and every other server-side state are covered.
\<close>

datatype request =
    GET string
  | POST string "(string \<times> string) list"

datatype response =
    Response int string "json option"
  | ConnectionFailed

type_synonym transport = "request list \<Rightarrow> request \<Rightarrow> response"

text \<open>
  The fields of \<^verbatim>\<open>OrangeAPI\<close> (lines 45 to 50); \<open>session\<close> holds the requests sent on
  \<^verbatim>\<open>self._session\<close> so far.
\<close>

record OrangeAPI =
  username :: string
  password :: string
  authenticated :: bool
  sso_id :: json
  user_data :: json
  session :: "request list"

definition init :: "request list \<Rightarrow> string \<Rightarrow> string \<Rightarrow> OrangeAPI" where
  "init sess usr pwd =
     \<lparr>username = usr, password = pwd, authenticated = False, sso_id = JNull,
      user_data = JObj [], session = sess\<rparr>"

definition send :: "transport \<Rightarrow> OrangeAPI \<Rightarrow> request \<Rightarrow> OrangeAPI \<times> response" where
  "send t s r = (s\<lparr>session := session s @ [r]\<rparr>, t (session s) r)"

section \<open>\<^verbatim>\<open>OrangeAPI\<close>: authentication\<close>

text \<open>
  Every operation returns the client's state after it together with its result: \<open>Inr\<close>
  a returned value, \<open>Inl\<close> the exception that left the method.
\<close>

text \<open>\<^verbatim>\<open>_fetch_user_data\<close>, lines 140 to 156.\<close>

definition fetch_user_data :: "transport \<Rightarrow> OrangeAPI \<Rightarrow> OrangeAPI \<times> (exn + json)" where
  "fetch_user_data t s =
     (case send t s (GET API_USER_DATA) of
        (s', ConnectionFailed) \<Rightarrow> (s', Inl ClientError)
      | (s', Response st u b) \<Rightarrow>
          if st = 200 then
            (case b of None \<Rightarrow> (s', Inl JSONError) | Some j \<Rightarrow> (s', Inr j))
          else (s', Inl (Exception ''Failed to fetch user data'' st)))"

text \<open>
  Step 3 of \<^verbatim>\<open>authenticate\<close>, lines 118 to 131, on the parsed user data. The flag is set
  before the current user is read, so an exception raised there leaves it set.
\<close>

definition verify_user_data :: "OrangeAPI \<Rightarrow> json \<Rightarrow> OrangeAPI \<times> (exn + bool)" where
  "verify_user_data s ud =
     (if \<not> truthy ud then (s, Inr False)
      else
        (case py_get ud ''data'' (JObj []) of
           Inl e \<Rightarrow> (s, Inl e)
         | Inr d \<Rightarrow>
             (case py_get d ''isUserLogged'' JNull of
                Inl e \<Rightarrow> (s, Inl e)
              | Inr logged \<Rightarrow>
                  if \<not> truthy logged then (s, Inr False)
                  else
                    (let s1 = s\<lparr>authenticated := True\<rparr> in
                     case py_get d ''currentUser'' (JObj []) of
                       Inl e \<Rightarrow> (s1, Inl e)
                     | Inr current_user \<Rightarrow>
                         (case py_get current_user ''ssoId'' JNull of
                            Inl e \<Rightarrow> (s1, Inl e)
                          | Inr sid \<Rightarrow>
                              (s1\<lparr>sso_id := sid, user_data := current_user\<rparr>, Inr True))))))"

text \<open>\<^verbatim>\<open>authenticate\<close>, lines 52 to 138. Both \<^verbatim>\<open>except\<close> clauses re-raise.\<close>

definition authenticate :: "transport \<Rightarrow> OrangeAPI \<Rightarrow> OrangeAPI \<times> (exn + bool)" where
  "authenticate t s =
     (case send t s (GET LOGIN_PAGE_URL) of
        (s1, ConnectionFailed) \<Rightarrow> (s1, Inl ClientError)
      | (s1, Response st1 login_url b1) \<Rightarrow>
          if st1 \<noteq> 200 then (s1, Inr False)
          else
            (case send t s1
                    (POST login_url [(''username'', username s1), (''password'', password s1)]) of
               (s2, ConnectionFailed) \<Rightarrow> (s2, Inl ClientError)
             | (s2, Response st2 final_url b2) \<Rightarrow>
                 if st2 \<noteq> 200 then (s2, Inr False)
                 else
                   (case fetch_user_data t s2 of
                      (s3, Inl e) \<Rightarrow> (s3, Inl e)
                    | (s3, Inr ud) \<Rightarrow> verify_user_data s3 ud)))"

text \<open>The guard that opens every public fetch: lines 200-201, 367-368, 393-394.\<close>

definition ensure_authenticated :: "transport \<Rightarrow> OrangeAPI \<Rightarrow> OrangeAPI \<times> (exn + unit)" where
  "ensure_authenticated t s =
     (if \<not> authenticated s then
        (case authenticate t s of
           (s', Inl e) \<Rightarrow> (s', Inl e)
         | (s', Inr ok) \<Rightarrow> (s', Inr ()))
      else (s, Inr ()))"

section \<open>\<^verbatim>\<open>OrangeAPI\<close>: the poll cycle\<close>

text \<open>The section fetches, lines 252 to 277.\<close>

definition fetch_profiles :: "transport \<Rightarrow> OrangeAPI \<Rightarrow> OrangeAPI \<times> (exn + json)" where
  "fetch_profiles t s =
     (case send t s (GET API_PROFILES) of
        (s', ConnectionFailed) \<Rightarrow> (s', Inl ClientError)
      | (s', Response st u b) \<Rightarrow>
          if st = 200 then
            (case b of None \<Rightarrow> (s', Inl JSONError) | Some j \<Rightarrow> (s', Inr j))
          else (s', Inr (JObj [])))"

definition fetch_subscribers :: "transport \<Rightarrow> OrangeAPI \<Rightarrow> OrangeAPI \<times> (exn + json)" where
  "fetch_subscribers t s =
     (case send t s (GET API_SUBSCRIBERS) of
        (s', ConnectionFailed) \<Rightarrow> (s', Inl ClientError)
      | (s', Response st u b) \<Rightarrow>
          if st = 200 then
            (case b of None \<Rightarrow> (s', Inl JSONError) | Some j \<Rightarrow> (s', Inr j))
          else (s', Inr (JArr [])))"

definition fetch_subscriptions_summary ::
  "transport \<Rightarrow> OrangeAPI \<Rightarrow> OrangeAPI \<times> (exn + json)" where
  "fetch_subscriptions_summary t s =
     (case send t s (GET API_SUBSCRIPTIONS_SUMMARY) of
        (s', ConnectionFailed) \<Rightarrow> (s', Inl ClientError)
      | (s', Response st u b) \<Rightarrow>
          if st = 200 then
            (case b of None \<Rightarrow> (s', Inl JSONError) | Some j \<Rightarrow> (s', Inr j))
          else (s', Inr (JObj [])))"

subsection \<open>Unpaid bills\<close>

text \<open>
  One entry of \<^verbatim>\<open>by_profile\<close> (lines 338 to 345) and the dict \<^verbatim>\<open>_fetch_unpaid_bills\<close>
  returns (lines 303 to 307). \<open>amount\<close> is the numeric value of the balance. The mapping
  is an association list in insertion order, as a Python dict is.
\<close>

record bill_rec =
  amount :: rat
  services :: json
  installments :: json
  due_date :: "string option"
  has_invoices :: json
  profile_name :: json

record unpaid_rec =
  total_amount :: rat
  total_count :: nat
  by_profile :: "(string \<times> bill_rec) list"

text \<open>Lines 332 to 336: the due date string of a \<^verbatim>\<open>dueDate\<close> value.\<close>

definition due_date_of :: "runtime \<Rightarrow> json \<Rightarrow> exn + string option" where
  "due_date_of rt due_date_ts =
     (if truthy due_date_ts then
        (case num_of due_date_ts of
           None \<Rightarrow> Inl TypeError
         | Some ms \<Rightarrow>
             (case fromtimestamp rt (ms / 1000) of
                Inl e \<Rightarrow> Inl e
              | Inr ymd \<Rightarrow> Inr (Some (strftime_ymd ymd))))
      else Inr None)"

text \<open>
  Lines 320 to 345, from the parsed invoice response to the entry the profile gets:
  \<open>Inr None\<close> when the code skips the profile, \<open>Inl\<close> when it raises in between (no
  field of \<^verbatim>\<open>unpaid_bills\<close> has been written at any of these points).
\<close>

definition invoice_entry ::
  "runtime \<Rightarrow> (string \<times> json) list \<Rightarrow> json \<Rightarrow> exn + bill_rec option" where
  "invoice_entry rt profile invoice_response =
     (case py_get invoice_response ''data'' JNull of
        Inl e \<Rightarrow> Inl e
      | Inr invoice_data \<Rightarrow>
          if \<not> truthy invoice_data then Inr None
          else
            (case invoice_data of
               JObj idata \<Rightarrow>
                 (case num_of (py_or (dict_get idata ''totalBalanceAmount'' (JFloat 0)) (JFloat 0)) of
                    None \<Rightarrow> Inl TypeError
                  | Some total_balance \<Rightarrow>
                      if 0 < total_balance then
                        (case due_date_of rt (dict_get idata ''dueDate'' JNull) of
                           Inl e \<Rightarrow> Inl e
                         | Inr due_date_str \<Rightarrow>
                             Inr (Some
                               \<lparr>amount = total_balance,
                                services =
                                  py_or (dict_get idata ''totalBalanceServices'' (JFloat 0)) (JFloat 0),
                                installments =
                                  py_or (dict_get idata ''totalBalanceInstallments'' (JFloat 0))
                                    (JFloat 0),
                                due_date = due_date_str,
                                has_invoices = dict_get idata ''hasInvoicesOnProfile'' (JBool False),
                                profile_name = dict_get profile ''name'' (JStr ''Unknown'')\<rparr>))
                      else Inr None)
             | _ \<Rightarrow> Inl AttributeError))"

text \<open>Lines 338 to 348: the three writes to \<^verbatim>\<open>unpaid_bills\<close>.\<close>

definition add_bill :: "string \<Rightarrow> bill_rec \<Rightarrow> unpaid_rec \<Rightarrow> unpaid_rec" where
  "add_bill k b ub =
     ub\<lparr>by_profile := AList.update k b (by_profile ub),
        total_amount := total_amount ub + amount b,
        total_count := total_count ub + 1\<rparr>"

text \<open>
  One iteration of the loop of lines 309 to 354. \<^verbatim>\<open>profile.get("id")\<close> stands outside
  the \<^verbatim>\<open>try\<close>, so a profile that is not a dict raises out of the loop; everything
  raised inside the \<^verbatim>\<open>try\<close> is caught and the loop continues.
\<close>

definition unpaid_step ::
  "transport \<Rightarrow> runtime \<Rightarrow> json \<Rightarrow> OrangeAPI \<times> unpaid_rec \<Rightarrow> OrangeAPI \<times> (exn + unpaid_rec)" where
  "unpaid_step t rt profile su =
     (case su of (s, ub) \<Rightarrow>
        (case profile of
           JObj p \<Rightarrow>
             (let profile_id = dict_get p ''id'' JNull in
              if \<not> truthy profile_id then (s, Inr ub)
              else
                (case send t s (GET (API_PROFILE_INVOICE_INFO (py_str rt profile_id))) of
                   (s', ConnectionFailed) \<Rightarrow> (s', Inr ub)
                 | (s', Response st u b) \<Rightarrow>
                     if st = 200 then
                       (case b of
                          None \<Rightarrow> (s', Inr ub)
                        | Some invoice_response \<Rightarrow>
                            (case invoice_entry rt p invoice_response of
                               Inl e \<Rightarrow> (s', Inr ub)
                             | Inr None \<Rightarrow> (s', Inr ub)
                             | Inr (Some entry) \<Rightarrow>
                                 (s', Inr (add_bill (py_str rt profile_id) entry ub))))
                     else (s', Inr ub)))
         | _ \<Rightarrow> (s, Inl AttributeError)))"

fun unpaid_loop ::
  "transport \<Rightarrow> runtime \<Rightarrow> json list \<Rightarrow> OrangeAPI \<times> unpaid_rec \<Rightarrow> OrangeAPI \<times> (exn + unpaid_rec)" where
  "unpaid_loop t rt [] su = (fst su, Inr (snd su))"
| "unpaid_loop t rt (profile # rest) su =
     (case unpaid_step t rt profile su of
        (s', Inl e) \<Rightarrow> (s', Inl e)
      | (s', Inr ub') \<Rightarrow> unpaid_loop t rt rest (s', ub'))"

text \<open>\<^verbatim>\<open>_fetch_unpaid_bills\<close>, lines 279 to 356.\<close>

definition fetch_unpaid_bills ::
  "transport \<Rightarrow> runtime \<Rightarrow> OrangeAPI \<Rightarrow> json \<Rightarrow> OrangeAPI \<times> (exn + unpaid_rec)" where
  "fetch_unpaid_bills t rt s profiles_list =
     (case py_iter profiles_list of
        Inl e \<Rightarrow> (s, Inl e)
      | Inr ps \<Rightarrow>
          unpaid_loop t rt ps (s, \<lparr>total_amount = 0, total_count = 0, by_profile = []\<rparr>))"

subsection \<open>The snapshot\<close>

text \<open>The dict \<^verbatim>\<open>get_data\<close> returns, lines 225 to 246.\<close>

record summary_rec =
  total_profiles :: nat
  total_subscribers :: nat
  total_loyalty_points :: rat
  total_unpaid_amount :: rat
  total_unpaid_count :: nat

record snapshot =
  user :: "(string \<times> json) list"
  profiles :: json
  subscribers :: json
  subscriptions_summary :: json
  unpaid_bills :: unpaid_rec
  summary :: summary_rec

text \<open>Lines 222-223: the loop that adds up the loyalty points.\<close>

fun loyalty_points :: "json list \<Rightarrow> rat \<Rightarrow> exn + rat" where
  "loyalty_points [] acc = Inr acc"
| "loyalty_points (profile # rest) acc =
     (case py_get profile ''totalPointsInOnlineShop'' (JFloat 0) of
        Inl e \<Rightarrow> Inl e
      | Inr v \<Rightarrow>
          (case num_of v of
             None \<Rightarrow> Inl TypeError
           | Some x \<Rightarrow> loyalty_points rest (acc + x)))"

text \<open>Lines 220 to 223.\<close>

definition total_loyalty :: "json \<Rightarrow> exn + rat" where
  "total_loyalty subscriptions_data =
     (if \<not> truthy subscriptions_data then Inr 0
      else
        (case py_get subscriptions_data ''data'' JNull of
           Inl e \<Rightarrow> Inl e
         | Inr d \<Rightarrow>
             if \<not> truthy d then Inr 0
             else (case py_iter d of Inl e \<Rightarrow> Inl e | Inr ps \<Rightarrow> loyalty_points ps 0)))"

text \<open>Lines 226 to 234.\<close>

definition user_section :: "json \<Rightarrow> exn + (string \<times> json) list" where
  "user_section ud =
     (case ud of
        JObj u \<Rightarrow>
          Inr [(''sso_id'', dict_get u ''ssoId'' JNull),
               (''username'', dict_get u ''username'' JNull),
               (''email'', dict_get u ''email'' JNull),
               (''first_name'', dict_get u ''firstName'' JNull),
               (''last_name'', dict_get u ''lastName'' JNull),
               (''primary_msisdn'', dict_get u ''primaryMsisdn'' JNull),
               (''customer_type'', dict_get u ''customerType'' JNull)]
      | _ \<Rightarrow> Inl AttributeError)"

text \<open>Lines 219 to 246: the summary and the returned dict, in the order Python evaluates them.\<close>

definition build_snapshot ::
  "OrangeAPI \<Rightarrow> json \<Rightarrow> json \<Rightarrow> json \<Rightarrow> unpaid_rec \<Rightarrow> exn + snapshot" where
  "build_snapshot s profiles_list subscribers_data subscriptions_data unpaid_bills_data =
     (case total_loyalty subscriptions_data of
        Inl e \<Rightarrow> Inl e
      | Inr points \<Rightarrow>
     (case user_section (user_data s) of
        Inl e \<Rightarrow> Inl e
      | Inr usr \<Rightarrow>
     (case (if truthy subscriptions_data then py_get subscriptions_data ''data'' (JArr [])
            else Inr (JArr [])) of
        Inl e \<Rightarrow> Inl e
      | Inr subs_summary \<Rightarrow>
     (case py_len profiles_list of
        Inl e \<Rightarrow> Inl e
      | Inr n_profiles \<Rightarrow>
     (case (if truthy subscribers_data then py_len subscribers_data else Inr 0) of
        Inl e \<Rightarrow> Inl e
      | Inr n_subscribers \<Rightarrow>
          Inr \<lparr>user = usr,
               profiles = profiles_list,
               subscribers = (if truthy subscribers_data then subscribers_data else JArr []),
               subscriptions_summary = subs_summary,
               unpaid_bills = unpaid_bills_data,
               summary =
                 \<lparr>total_profiles = n_profiles,
                  total_subscribers = n_subscribers,
                  total_loyalty_points = points,
                  total_unpaid_amount = total_amount unpaid_bills_data,
                  total_unpaid_count = total_count unpaid_bills_data\<rparr>\<rparr>)))))"

text \<open>Lines 211 to 217: the three section fetches, the profile list and the invoice loop.\<close>

definition profiles_list_of :: "json \<Rightarrow> exn + json" where
  "profiles_list_of profiles_data =
     (if truthy profiles_data then py_get profiles_data ''profiles'' (JArr []) else Inr (JArr []))"

text \<open>
  \<^verbatim>\<open>get_data\<close>, lines 158 to 250. The result of \<^verbatim>\<open>authenticate\<close> is not looked at on
  line 201; the \<^verbatim>\<open>except\<close> clause of lines 248 to 250 re-raises.
\<close>

definition get_data ::
  "transport \<Rightarrow> runtime \<Rightarrow> OrangeAPI \<Rightarrow> OrangeAPI \<times> (exn + snapshot)" where
  "get_data t rt s =
     (case ensure_authenticated t s of
        (s0, Inl e) \<Rightarrow> (s0, Inl e)
      | (s0, Inr ok) \<Rightarrow>
     (case fetch_profiles t s0 of
        (s1, Inl e) \<Rightarrow> (s1, Inl e)
      | (s1, Inr profiles_data) \<Rightarrow>
     (case fetch_subscribers t s1 of
        (s2, Inl e) \<Rightarrow> (s2, Inl e)
      | (s2, Inr subscribers_data) \<Rightarrow>
     (case fetch_subscriptions_summary t s2 of
        (s3, Inl e) \<Rightarrow> (s3, Inl e)
      | (s3, Inr subscriptions_data) \<Rightarrow>
     (case profiles_list_of profiles_data of
        Inl e \<Rightarrow> (s3, Inl e)
      | Inr profiles_list \<Rightarrow>
     (case fetch_unpaid_bills t rt s3 profiles_list of
        (s4, Inl e) \<Rightarrow> (s4, Inl e)
      | (s4, Inr unpaid_bills_data) \<Rightarrow>
          (s4, build_snapshot s4 profiles_list subscribers_data subscriptions_data
                 unpaid_bills_data)))))))"

text \<open>\<^verbatim>\<open>get_profile_invoices\<close> and \<^verbatim>\<open>get_profile_transactions\<close>, lines 358 to 408.\<close>

definition get_profile_invoices ::
  "transport \<Rightarrow> OrangeAPI \<Rightarrow> int \<Rightarrow> OrangeAPI \<times> (exn + json)" where
  "get_profile_invoices t s profile_id =
     (case ensure_authenticated t s of
        (s0, Inl e) \<Rightarrow> (s0, Inl e)
      | (s0, Inr ok) \<Rightarrow>
          (case send t s0 (GET (API_PROFILE_INVOICE_INFO (show_int profile_id))) of
             (s', ConnectionFailed) \<Rightarrow> (s', Inl ClientError)
           | (s', Response st u b) \<Rightarrow>
               if st = 200 then
                 (case b of None \<Rightarrow> (s', Inl JSONError) | Some j \<Rightarrow> (s', Inr j))
               else (s', Inl (Exception ''Failed to fetch invoice info'' st))))"

definition get_profile_transactions ::
  "transport \<Rightarrow> OrangeAPI \<Rightarrow> int \<Rightarrow> OrangeAPI \<times> (exn + json)" where
  "get_profile_transactions t s profile_id =
     (case ensure_authenticated t s of
        (s0, Inl e) \<Rightarrow> (s0, Inl e)
      | (s0, Inr ok) \<Rightarrow>
          (case send t s0 (GET (API_PROFILE_TRANSACTIONS (show_int profile_id))) of
             (s', ConnectionFailed) \<Rightarrow> (s', Inl ClientError)
           | (s', Response st u b) \<Rightarrow>
               if st = 200 then
                 (case b of None \<Rightarrow> (s', Inl JSONError) | Some j \<Rightarrow> (s', Inr j))
               else (s', Inl (Exception ''Failed to fetch transactions'' st))))"

section \<open>Reading results and states\<close>

text \<open>What an operation returned, or what it raised.\<close>

definition returned :: "'s \<times> (exn + 'a) \<Rightarrow> 'a option" where
  "returned r = (case snd r of Inl e \<Rightarrow> None | Inr v \<Rightarrow> Some v)"

definition raised :: "'s \<times> (exn + 'a) \<Rightarrow> exn option" where
  "raised r = (case snd r of Inl e \<Rightarrow> Some e | Inr v \<Rightarrow> None)"

definition is_dict :: "json \<Rightarrow> bool" where
  "is_dict v = (case v of JObj kvs \<Rightarrow> True | _ \<Rightarrow> False)"

text \<open>Line 310, \<^verbatim>\<open>profile.get("id")\<close>, read off a profile of the list.\<close>

definition profile_id_of :: "json \<Rightarrow> json" where
  "profile_id_of profile = (case profile of JObj p \<Rightarrow> dict_get p ''id'' JNull | _ \<Rightarrow> JNull)"

text \<open>Lines 316-317: the request the loop sends for a profile id.\<close>

definition invoice_request :: "runtime \<Rightarrow> json \<Rightarrow> request" where
  "invoice_request rt profile_id = GET (API_PROFILE_INVOICE_INFO (py_str rt profile_id))"

text \<open>
  The stored identity is the pair \<^verbatim>\<open>_sso_id\<close>, \<^verbatim>\<open>_user_data\<close>; it is absent while both
  hold what \<^verbatim>\<open>__init__\<close> put there.
\<close>

definition has_identity :: "OrangeAPI \<Rightarrow> bool" where
  "has_identity s = (sso_id s \<noteq> JNull \<or> user_data s \<noteq> JObj [])"

definition identity_implies_authenticated :: "OrangeAPI \<Rightarrow> bool" where
  "identity_implies_authenticated s = (authenticated s \<or> \<not> has_identity s)"

section \<open>Example portals\<close>

text \<open>
  A portal given by a table: a request found in the table gets the response listed
  first for it, any other request gets a 404 without a JSON body.
\<close>

definition serve :: "(request \<times> response) list \<Rightarrow> transport" where
  "serve table history r =
     (case map_of table r of None \<Rightarrow> Response 404 [] None | Some resp \<Rightarrow> resp)"

definition utc :: runtime where
  "utc = \<lparr>utc_offset = (\<lambda>secs. 0), str_other = (\<lambda>v. [])\<rparr>"

definition new_york :: runtime where
  "new_york = \<lparr>utc_offset = (\<lambda>secs. - 18000), str_other = (\<lambda>v. [])\<rparr>"

definition fresh :: OrangeAPI where
  "fresh = init [] ''user'' ''secret''"

definition logged_in :: OrangeAPI where
  "logged_in = fresh\<lparr>authenticated := True\<rparr>"

definition login_url_ex :: string where
  "login_url_ex = ''https://www.orange.ro/login?ak=1''"

definition login_post :: request where
  "login_post = POST login_url_ex [(''username'', ''user''), (''password'', ''secret'')]"

definition john :: json where
  "john = JObj [(''id'', JInt 100000001), (''name'', JStr ''John Doe'')]"

definition jane :: json where
  "jane = JObj [(''id'', JInt 7), (''name'', JStr ''Jane Doe'')]"


definition john_invoice :: json where
  "john_invoice =
     JObj [(''data'',
            JObj [(''totalBalanceAmount'', JFloat 129.41), (''dueDate'', JInt 1771200000000)])]"

definition user_data_ok :: json where
  "user_data_ok =
     JObj [(''data'',
            JObj [(''isUserLogged'', JBool True),
                  (''currentUser'', JObj [(''ssoId'', JInt 12345), (''username'', JStr ''user'')])])]"

definition user_data_rejected :: json where
  "user_data_rejected = JObj [(''data'', JObj [(''isUserLogged'', JBool False)])]"

definition user_data_anonymous :: json where
  "user_data_anonymous = JObj [(''data'', JObj [(''isUserLogged'', JBool True)])]"

text \<open>
  An account with one profile, one subscriber line, one summary record and one unpaid
  bill, on a portal where every request succeeds.
\<close>

definition account :: "(request \<times> response) list" where
  "account =
     [(GET LOGIN_PAGE_URL, Response 200 login_url_ex None),
      (login_post, Response 200 MYACCOUNT_URL None),
      (GET API_USER_DATA, Response 200 API_USER_DATA (Some user_data_ok)),
      (GET API_PROFILES,
       Response 200 API_PROFILES (Some (JObj [(''profiles'', JArr [john])]))),
      (GET API_SUBSCRIBERS,
       Response 200 API_SUBSCRIBERS (Some (JArr [JObj [(''subscriberId'', JInt 456)]]))),
      (GET API_SUBSCRIPTIONS_SUMMARY,
       Response 200 API_SUBSCRIPTIONS_SUMMARY
         (Some (JObj [(''data'', JArr [JObj [(''totalPointsInOnlineShop'', JFloat 4.38)]])]))),
      (GET (API_PROFILE_INVOICE_INFO ''100000001''),
       Response 200 (API_PROFILE_INVOICE_INFO ''100000001'') (Some john_invoice))]"

text \<open>
  The fetched \<^verbatim>\<open>totalBalanceAmount\<close> of an invoice is not a positive number: the key is
  absent, or its value is null or another non-number, or a number that is zero or negative.
\<close>

definition balance_not_positive :: "(string \<times> json) list \<Rightarrow> bool" where
  "balance_not_positive idata =
     (case map_of idata ''totalBalanceAmount'' of
        None \<Rightarrow> True
      | Some v \<Rightarrow> (case num_of v of None \<Rightarrow> True | Some x \<Rightarrow> x \<le> 0))"

definition jane_invoice :: json where
  "jane_invoice = JObj [(''data'', JObj [(''totalBalanceAmount'', JFloat 0)])]"

text \<open>
  The entry of John's unpaid bill with a given due date string, and what \<open>get_data\<close>
  returns for the account above to a client that holds no identity.
\<close>

definition john_bill :: "string \<Rightarrow> bill_rec" where
  "john_bill due =
     \<lparr>amount = 129.41, services = JFloat 0, installments = JFloat 0, due_date = Some due,
      has_invoices = JBool False, profile_name = JStr ''John Doe''\<rparr>"

definition account_bills :: "string \<Rightarrow> unpaid_rec" where
  "account_bills due =
     \<lparr>total_amount = 129.41, total_count = 1, by_profile = [(''100000001'', john_bill due)]\<rparr>"

definition account_snapshot :: "string \<Rightarrow> snapshot" where
  "account_snapshot due =
     \<lparr>user =
        [(''sso_id'', JNull), (''username'', JNull), (''email'', JNull), (''first_name'', JNull),
         (''last_name'', JNull), (''primary_msisdn'', JNull), (''customer_type'', JNull)],
      profiles = JArr [john],
      subscribers = JArr [JObj [(''subscriberId'', JInt 456)]],
      subscriptions_summary = JArr [JObj [(''totalPointsInOnlineShop'', JFloat 4.38)]],
      unpaid_bills = account_bills due,
      summary =
        \<lparr>total_profiles = 1, total_subscribers = 1, total_loyalty_points = 4.38,
         total_unpaid_amount = 129.41, total_unpaid_count = 1\<rparr>\<rparr>"

text \<open>The same account with a second invoice on the portal, of balance zero.\<close>

definition account_jane :: "(request \<times> response) list" where
  "account_jane =
     (GET (API_PROFILE_INVOICE_INFO ''7''),
      Response 200 (API_PROFILE_INVOICE_INFO ''7'') (Some jane_invoice)) # account"




definition account_subscribers_down :: "(request \<times> response) list" where
  "account_subscribers_down = (GET API_SUBSCRIBERS, ConnectionFailed) # account"

definition account_subscribers_503 :: "(request \<times> response) list" where
  "account_subscribers_503 = (GET API_SUBSCRIBERS, Response 503 API_SUBSCRIBERS None) # account"

definition account_rejected :: "(request \<times> response) list" where
  "account_rejected =
     [(GET LOGIN_PAGE_URL, Response 200 login_url_ex None),
      (login_post, Response 200 MYACCOUNT_URL None),
      (GET API_USER_DATA, Response 200 API_USER_DATA (Some user_data_rejected))]"

definition account_anonymous :: "(request \<times> response) list" where
  "account_anonymous = (GET API_USER_DATA, Response 200 API_USER_DATA (Some user_data_anonymous)) # account"

definition account_user_data_500 :: "(request \<times> response) list" where
  "account_user_data_500 = (GET API_USER_DATA, Response 500 API_USER_DATA None) # account"

definition account_unreachable :: "(request \<times> response) list" where
  "account_unreachable = (GET LOGIN_PAGE_URL, ConnectionFailed) # account"

text \<open>The snapshot of a poll against a portal that answers every section with 404.\<close>

definition empty_snapshot :: snapshot where
  "empty_snapshot =
     \<lparr>user =
        [(''sso_id'', JNull), (''username'', JNull), (''email'', JNull), (''first_name'', JNull),
         (''last_name'', JNull), (''primary_msisdn'', JNull), (''customer_type'', JNull)],
      profiles = JArr [],
      subscribers = JArr [],
      subscriptions_summary = JArr [],
      unpaid_bills = \<lparr>total_amount = 0, total_count = 0, by_profile = []\<rparr>,
      summary =
        \<lparr>total_profiles = 0, total_subscribers = 0, total_loyalty_points = 0,
         total_unpaid_amount = 0, total_unpaid_count = 0\<rparr>\<rparr>"

section \<open>The invoice loop and the poll cycle\<close>

lemma amount_add_bill [simp]:
  "by_profile (add_bill k b ub) = AList.update k b (by_profile ub)"
  "total_amount (add_bill k b ub) = total_amount ub + amount b"
  "total_count (add_bill k b ub) = Suc (total_count ub)"
  by (simp_all add: add_bill_def)

lemma invoice_entry_positive:
  "invoice_entry rt p resp = Inr (Some b) \<Longrightarrow> 0 < amount b"
  by (auto simp: invoice_entry_def split: sum.splits if_splits json.splits option.splits)

lemma unpaid_step_cases:
  assumes "unpaid_step t rt profile (s, ub) = (s', r)"
  shows "(\<not> is_dict profile \<and> s' = s \<and> r = Inl AttributeError) \<or>
         (is_dict profile \<and> \<not> truthy (profile_id_of profile) \<and> s' = s \<and> r = Inr ub) \<or>
         (is_dict profile \<and> truthy (profile_id_of profile) \<and>
          s' = s\<lparr>session := session s @ [invoice_request rt (profile_id_of profile)]\<rparr> \<and>
          (r = Inr ub \<or>
           (\<exists>b. 0 < amount b \<and> r = Inr (add_bill (py_str rt (profile_id_of profile)) b ub))))"
proof (cases profile)
  case (JObj p)
  show ?thesis
  proof (cases "truthy (dict_get p ''id'' JNull)")
    case False
    with assms JObj show ?thesis
      by (simp add: unpaid_step_def is_dict_def profile_id_of_def)
  next
    case True
    with assms JObj show ?thesis
      by (auto simp: unpaid_step_def is_dict_def profile_id_of_def send_def invoice_request_def Let_def
          dest: invoice_entry_positive split: response.splits option.splits sum.splits if_splits)
  qed
qed (use assms in \<open>simp_all add: unpaid_step_def is_dict_def\<close>)


lemma set_update_subset: "set (AList.update k v al) \<subseteq> insert (k, v) (set al)"
  by (induction al) auto

lemma unpaid_loop_returns:
  "\<forall>p \<in> set ps. is_dict p \<Longrightarrow> \<exists>s' ub'. unpaid_loop t rt ps (s, ub) = (s', Inr ub')"
proof (induction ps arbitrary: s ub)
  case Nil
  then show ?case by simp
next
  case (Cons p ps)
  obtain s1 r where step: "unpaid_step t rt p (s, ub) = (s1, r)"
    by (cases "unpaid_step t rt p (s, ub)")
  from Cons.prems have "is_dict p" by simp
  with unpaid_step_cases [OF step] obtain ub1 where "r = Inr ub1" by auto
  with step Cons show ?case by simp
qed

lemma unpaid_loop_state:
  "unpaid_loop t rt ps (s, ub) = (s', r) \<Longrightarrow>
     authenticated s' = authenticated s \<and> sso_id s' = sso_id s \<and> user_data s' = user_data s
     \<and> username s' = username s \<and> password s' = password s"
proof (induction ps arbitrary: s ub)
  case Nil
  then show ?case by simp
next
  case (Cons p ps)
  obtain s1 r1 where step: "unpaid_step t rt p (s, ub) = (s1, r1)"
    by (cases "unpaid_step t rt p (s, ub)")
  have same: "authenticated s1 = authenticated s \<and> sso_id s1 = sso_id s \<and> user_data s1 = user_data s
     \<and> username s1 = username s \<and> password s1 = password s"
    using unpaid_step_cases [OF step] by auto
  show ?case
  proof (cases r1)
    case (Inl e)
    with step Cons.prems same show ?thesis by simp
  next
    case (Inr ub1)
    with step Cons.prems have "unpaid_loop t rt ps (s1, ub1) = (s', r)" by simp
    from Cons.IH [OF this] same show ?thesis by simp
  qed
qed


lemma unpaid_loop_positive:
  "unpaid_loop t rt ps (s, ub) = (s', Inr ub') \<Longrightarrow>
   \<forall>kb \<in> set (by_profile ub). 0 < amount (snd kb) \<Longrightarrow>
   \<forall>kb \<in> set (by_profile ub'). 0 < amount (snd kb)"
proof (induction ps arbitrary: s ub)
  case Nil
  then show ?case by simp
next
  case (Cons p ps)
  obtain s1 r1 where step: "unpaid_step t rt p (s, ub) = (s1, r1)"
    by (cases "unpaid_step t rt p (s, ub)")
  with Cons.prems obtain ub1 where r1: "r1 = Inr ub1"
    and rest: "unpaid_loop t rt ps (s1, ub1) = (s', Inr ub')"
    by (cases r1) auto
  have "\<forall>kb \<in> set (by_profile ub1). 0 < amount (snd kb)"
    using unpaid_step_cases [OF step] r1 Cons.prems(2) set_update_subset by fastforce
  from Cons.IH [OF rest this] show ?case .
qed



lemma fetch_profiles_state:
  "fetch_profiles t s = (s', r) \<Longrightarrow> s' = s\<lparr>session := session s @ [GET API_PROFILES]\<rparr>"
  by (auto simp: fetch_profiles_def send_def split: response.splits if_splits option.splits)

lemma fetch_subscribers_state:
  "fetch_subscribers t s = (s', r) \<Longrightarrow> s' = s\<lparr>session := session s @ [GET API_SUBSCRIBERS]\<rparr>"
  by (auto simp: fetch_subscribers_def send_def split: response.splits if_splits option.splits)

lemma fetch_subscriptions_summary_state:
  "fetch_subscriptions_summary t s = (s', r) \<Longrightarrow>
     s' = s\<lparr>session := session s @ [GET API_SUBSCRIPTIONS_SUMMARY]\<rparr>"
  by (auto simp: fetch_subscriptions_summary_def send_def
      split: response.splits if_splits option.splits)

lemma build_snapshot_fields:
  "build_snapshot s pl sd ssd ub = Inr snap \<Longrightarrow>
     profiles snap = pl \<and> unpaid_bills snap = ub \<and>
     subscribers snap = (if truthy sd then sd else JArr []) \<and>
     total_unpaid_amount (summary snap) = total_amount ub \<and>
     total_unpaid_count (summary snap) = total_count ub"
  by (auto simp: build_snapshot_def split: sum.splits if_splits)

lemma get_data_returned:
  assumes "get_data t rt s = (s', Inr snap)"
  shows "\<exists>s0 s3 ps. ensure_authenticated t s = (s0, Inr ()) \<and>
           s3 = s0\<lparr>session := session s0 @
                  [GET API_PROFILES, GET API_SUBSCRIBERS, GET API_SUBSCRIPTIONS_SUMMARY]\<rparr> \<and>
           py_iter (profiles snap) = Inr ps \<and>
           unpaid_loop t rt ps (s3, \<lparr>total_amount = 0, total_count = 0, by_profile = []\<rparr>)
             = (s', Inr (unpaid_bills snap)) \<and>
           total_unpaid_amount (summary snap) = total_amount (unpaid_bills snap) \<and>
           total_unpaid_count (summary snap) = total_count (unpaid_bills snap)"
proof -
  obtain s0 r0 where ea: "ensure_authenticated t s = (s0, r0)"
    by (cases "ensure_authenticated t s")
  obtain s1 r1 where f1: "fetch_profiles t s0 = (s1, r1)" by (cases "fetch_profiles t s0")
  obtain s2 r2 where f2: "fetch_subscribers t s1 = (s2, r2)" by (cases "fetch_subscribers t s1")
  obtain s3 r3 where f3: "fetch_subscriptions_summary t s2 = (s3, r3)"
    by (cases "fetch_subscriptions_summary t s2")
  from assms ea f1 f2 f3 obtain pd sd ssd pl ub
    where r: "r0 = Inr ()" "r1 = Inr pd" "r2 = Inr sd" "r3 = Inr ssd"
      and pl: "profiles_list_of pd = Inr pl"
      and fub: "fetch_unpaid_bills t rt s3 pl = (s', Inr ub)"
      and bs: "build_snapshot s' pl sd ssd ub = Inr snap"
    by (auto simp: get_data_def split: sum.splits prod.splits)
  from fub obtain ps where ps: "py_iter pl = Inr ps"
    and loop: "unpaid_loop t rt ps (s3, \<lparr>total_amount = 0, total_count = 0, by_profile = []\<rparr>)
      = (s', Inr ub)"
    by (auto simp: fetch_unpaid_bills_def split: sum.splits)
  have s3: "s3 = s0\<lparr>session := session s0 @
      [GET API_PROFILES, GET API_SUBSCRIBERS, GET API_SUBSCRIPTIONS_SUMMARY]\<rparr>"
    using fetch_profiles_state [OF f1] fetch_subscribers_state [OF f2]
      fetch_subscriptions_summary_state [OF f3] by simp
  from build_snapshot_fields [OF bs] ea r s3 ps loop show ?thesis by simp
qed

lemma unpaid_loop_session_prefix:
  "unpaid_loop t rt ps (s, ub) = (s', r) \<Longrightarrow> \<exists>xs. session s' = session s @ xs"
proof (induction ps arbitrary: s ub)
  case Nil
  then show ?case by simp
next
  case (Cons p ps)
  obtain s1 r1 where step: "unpaid_step t rt p (s, ub) = (s1, r1)"
    by (cases "unpaid_step t rt p (s, ub)")
  have pre: "\<exists>xs. session s1 = session s @ xs"
    using unpaid_step_cases [OF step] by auto
  show ?case
  proof (cases r1)
    case (Inl e)
    with step Cons.prems pre show ?thesis by simp
  next
    case (Inr ub1)
    with step Cons.prems have "unpaid_loop t rt ps (s1, ub1) = (s', r)" by simp
    from Cons.IH [OF this] pre show ?thesis by auto
  qed
qed

lemma fetch_unpaid_bills_state:
  assumes "fetch_unpaid_bills t rt s pl = (s', r)"
  shows "authenticated s' = authenticated s \<and> sso_id s' = sso_id s \<and> user_data s' = user_data s
     \<and> (\<exists>xs. session s' = session s @ xs)"
proof (cases "py_iter pl")
  case (Inl e)
  with assms show ?thesis by (simp add: fetch_unpaid_bills_def)
next
  case (Inr ps)
  with assms have loop:
    "unpaid_loop t rt ps (s, \<lparr>total_amount = 0, total_count = 0, by_profile = []\<rparr>) = (s', r)"
    by (simp add: fetch_unpaid_bills_def)
  from unpaid_loop_state [OF loop] unpaid_loop_session_prefix [OF loop] show ?thesis by simp
qed

text \<open>After the authentication step, a poll changes nothing of the client but its session.\<close>

lemma get_data_after_authentication:
  assumes "get_data t rt s = (s', r)"
  shows "\<exists>s0 r0. ensure_authenticated t s = (s0, r0) \<and>
           authenticated s' = authenticated s0 \<and> sso_id s' = sso_id s0 \<and>
           user_data s' = user_data s0 \<and>
           (case r0 of
              Inl e \<Rightarrow> s' = s0 \<and> r = Inl e
            | Inr ok \<Rightarrow> (\<exists>xs. session s' = session s0 @ GET API_PROFILES # xs))"
proof -
  obtain s0 r0 where ea: "ensure_authenticated t s = (s0, r0)"
    by (cases "ensure_authenticated t s")
  show ?thesis
  proof (cases r0)
    case (Inl e)
    with assms ea show ?thesis by (simp add: get_data_def)
  next
    case r0: (Inr ok)
    obtain s1 r1 where f1: "fetch_profiles t s0 = (s1, r1)" by (cases "fetch_profiles t s0")
    obtain s2 r2 where f2: "fetch_subscribers t s1 = (s2, r2)" by (cases "fetch_subscribers t s1")
    obtain s3 r3 where f3: "fetch_subscriptions_summary t s2 = (s3, r3)"
      by (cases "fetch_subscriptions_summary t s2")
    note st = fetch_profiles_state [OF f1] fetch_subscribers_state [OF f2]
      fetch_subscriptions_summary_state [OF f3]
    have "authenticated s' = authenticated s0 \<and> sso_id s' = sso_id s0 \<and>
        user_data s' = user_data s0 \<and> (\<exists>xs. session s' = session s0 @ GET API_PROFILES # xs)"
    proof (cases "\<exists>pd sd ssd pl. r1 = Inr pd \<and> r2 = Inr sd \<and> r3 = Inr ssd \<and>
        profiles_list_of pd = Inr pl")
      case False
      with assms ea r0 f1 f2 f3 have "s' = s1 \<or> s' = s2 \<or> s' = s3"
        by (auto simp: get_data_def split: sum.splits)
      with st show ?thesis by auto
    next
      case True
      then obtain pd sd ssd pl where r: "r1 = Inr pd" "r2 = Inr sd" "r3 = Inr ssd"
        "profiles_list_of pd = Inr pl" by blast
      obtain s4 r4 where f4: "fetch_unpaid_bills t rt s3 pl = (s4, r4)"
        by (cases "fetch_unpaid_bills t rt s3 pl")
      with assms ea r0 f1 f2 f3 r have "s' = s4"
        by (auto simp: get_data_def split: sum.splits)
      with fetch_unpaid_bills_state [OF f4] st show ?thesis by auto
    qed
    with ea r0 show ?thesis by simp
  qed
qed

lemma verify_user_data_state:
  "verify_user_data s ud = (s', r) \<Longrightarrow>
     session s' = session s \<and> username s' = username s \<and> password s' = password s \<and>
     (authenticated s' \<or> (authenticated s' = authenticated s \<and> sso_id s' = sso_id s \<and>
        user_data s' = user_data s))"
  by (auto simp: verify_user_data_def Let_def split: if_splits sum.splits)



section \<open>Evaluating the examples\<close>

lemma due_instant: "round_half_even (1771200000000 / 1000 * 1000000) div 1000000 = 1771200000"
  unfolding round_half_even_def Let_def by simp

lemma civil_20500: "civil_from_days 20500 = (2026, 2, 16)"
  unfolding civil_from_days_def Let_def by simp

lemma civil_20499: "civil_from_days 20499 = (2026, 2, 15)"
  unfolding civil_from_days_def Let_def by simp

lemma strftime_feb16: "strftime_ymd (2026, 2, 16) = ''2026-02-16''"
  by (simp add: strftime_ymd_def show_nat.simps digit_char_def pad_left_def)

lemma strftime_feb15: "strftime_ymd (2026, 2, 15) = ''2026-02-15''"
  by (simp add: strftime_ymd_def show_nat.simps digit_char_def pad_left_def)

lemma fromtimestamp_due:
  assumes "- 86400 \<le> utc_offset rt 1771200000" "utc_offset rt 1771200000 < 86400"
  shows "fromtimestamp rt (1771200000000 / 1000) =
           Inr (if 0 \<le> utc_offset rt 1771200000 then (2026, 2, 16) else (2026, 2, 15))"
proof (cases "0 \<le> utc_offset rt 1771200000")
  case True
  with assms have "(1771200000 + utc_offset rt 1771200000) div 86400 = 20500" by linarith
  with True show ?thesis
    unfolding fromtimestamp_def Let_def due_instant by (simp add: civil_20500)
next
  case False
  with assms have "(1771200000 + utc_offset rt 1771200000) div 86400 = 20499" by linarith
  with False show ?thesis
    unfolding fromtimestamp_def Let_def due_instant by (simp add: civil_20499)
qed

lemma show_john: "show_int 100000001 = ''100000001''"
  by (simp add: show_int_def show_nat.simps digit_char_def)

lemmas urls = BASE_URL_def MYACCOUNT_URL_def API_BASE_def LOGIN_PAGE_URL_def API_USER_DATA_def
  API_PROFILES_def API_SUBSCRIBERS_def API_SUBSCRIPTIONS_SUMMARY_def API_PROFILE_INVOICE_INFO_def
  API_PROFILE_TRANSACTIONS_def login_url_ex_def login_post_def

lemma due_date_example:
  assumes "- 86400 \<le> utc_offset rt 1771200000" "utc_offset rt 1771200000 < 86400"
  shows "due_date_of rt (JInt 1771200000000) =
           Inr (Some (if 0 \<le> utc_offset rt 1771200000 then ''2026-02-16'' else ''2026-02-15''))"
  using fromtimestamp_due [OF assms]
  by (simp add: due_date_of_def strftime_feb16 strftime_feb15)

lemma invoice_entry_example:
  assumes "- 86400 \<le> utc_offset rt 1771200000" "utc_offset rt 1771200000 < 86400"
  shows "invoice_entry rt [(''id'', JInt 100000001), (''name'', JStr ''John Doe'')] john_invoice =
           Inr (Some (john_bill (if 0 \<le> utc_offset rt 1771200000 then ''2026-02-16''
                                 else ''2026-02-15'')))"
  using due_date_example [OF assms]
  by (simp add: invoice_entry_def john_invoice_def dict_get_def py_or_def john_bill_def)

lemma unpaid_step_john:
  assumes "t (session s) (GET (API_PROFILE_INVOICE_INFO ''100000001'')) =
             Response 200 u (Some john_invoice)"
    and "- 86400 \<le> utc_offset rt 1771200000" and "utc_offset rt 1771200000 < 86400"
  shows "unpaid_step t rt john (s, ub) =
     (s\<lparr>session := session s @ [GET (API_PROFILE_INVOICE_INFO ''100000001'')]\<rparr>,
      Inr (add_bill ''100000001''
            (john_bill (if 0 \<le> utc_offset rt 1771200000 then ''2026-02-16'' else ''2026-02-15''))
            ub))"
  using assms(1) invoice_entry_example [OF assms(2,3)]
  by (simp add: unpaid_step_def john_def dict_get_def send_def show_john)

lemma fetch_unpaid_john:
  assumes "t (session s) (GET (API_PROFILE_INVOICE_INFO ''100000001'')) =
             Response 200 u (Some john_invoice)"
    and "- 86400 \<le> utc_offset rt 1771200000" and "utc_offset rt 1771200000 < 86400"
  shows "fetch_unpaid_bills t rt s (JArr [john]) =
     (s\<lparr>session := session s @ [GET (API_PROFILE_INVOICE_INFO ''100000001'')]\<rparr>,
      Inr (account_bills (if 0 \<le> utc_offset rt 1771200000 then ''2026-02-16''
                          else ''2026-02-15'')))"
  using unpaid_step_john [where t = t and s = s and rt = rt, OF assms]
  by (simp add: fetch_unpaid_bills_def add_bill_def account_bills_def john_bill_def)

lemma logged_in_fields:
  "authenticated logged_in" "user_data logged_in = JObj []" "session logged_in = []"
  "sso_id logged_in = JNull" "username logged_in = ''user''" "password logged_in = ''secret''"
  by (simp_all add: logged_in_def fresh_def init_def)

lemma fresh_fields:
  "\<not> authenticated fresh" "user_data fresh = JObj []" "session fresh = []"
  "sso_id fresh = JNull" "username fresh = ''user''" "password fresh = ''secret''"
  by (simp_all add: fresh_def init_def)

lemma utc_offset_examples: "utc_offset utc x = 0" "utc_offset new_york x = - 18000"
  by (simp_all add: utc_def new_york_def)

lemma serve_account:
  "serve account h (GET API_PROFILES) =
     Response 200 API_PROFILES (Some (JObj [(''profiles'', JArr [john])]))"
  "serve account h (GET API_SUBSCRIBERS) =
     Response 200 API_SUBSCRIBERS (Some (JArr [JObj [(''subscriberId'', JInt 456)]]))"
  "serve account h (GET API_SUBSCRIPTIONS_SUMMARY) =
     Response 200 API_SUBSCRIPTIONS_SUMMARY
       (Some (JObj [(''data'', JArr [JObj [(''totalPointsInOnlineShop'', JFloat 4.38)]])]))"
  "serve account h (GET (API_PROFILE_INVOICE_INFO ''100000001'')) =
     Response 200 (API_PROFILE_INVOICE_INFO ''100000001'') (Some john_invoice)"
  by (simp_all add: serve_def account_def urls)

lemma build_snapshot_account:
  assumes "user_data s = JObj []"
  shows "build_snapshot s (JArr ps) (JArr [JObj [(''subscriberId'', JInt 456)]])
           (JObj [(''data'', JArr [JObj [(''totalPointsInOnlineShop'', JFloat 4.38)]])]) ub =
     Inr \<lparr>user =
            [(''sso_id'', JNull), (''username'', JNull), (''email'', JNull),
             (''first_name'', JNull), (''last_name'', JNull), (''primary_msisdn'', JNull),
             (''customer_type'', JNull)],
          profiles = JArr ps,
          subscribers = JArr [JObj [(''subscriberId'', JInt 456)]],
          subscriptions_summary = JArr [JObj [(''totalPointsInOnlineShop'', JFloat 4.38)]],
          unpaid_bills = ub,
          summary =
            \<lparr>total_profiles = length ps, total_subscribers = 1, total_loyalty_points = 4.38,
             total_unpaid_amount = total_amount ub, total_unpaid_count = total_count ub\<rparr>\<rparr>"
  using assms
  by (simp add: build_snapshot_def total_loyalty_def user_section_def dict_get_def)

lemma get_data_authenticated:
  assumes "authenticated s"
    and "\<And>h. t h (GET API_PROFILES) = Response 200 u1 (Some (JObj [(''profiles'', JArr ps)]))"
    and "\<And>h. t h (GET API_SUBSCRIBERS) = Response 200 u2 (Some sd)"
    and "\<And>h. t h (GET API_SUBSCRIPTIONS_SUMMARY) = Response 200 u3 (Some ssd)"
    and "unpaid_loop t rt ps
           (s\<lparr>session := session s @
                [GET API_PROFILES, GET API_SUBSCRIBERS, GET API_SUBSCRIPTIONS_SUMMARY]\<rparr>,
            \<lparr>total_amount = 0, total_count = 0, by_profile = []\<rparr>) = (s', Inr ub)"
  shows "get_data t rt s = (s', build_snapshot s' (JArr ps) sd ssd ub)"
  using assms
  by (simp add: get_data_def ensure_authenticated_def fetch_profiles_def fetch_subscribers_def
      fetch_subscriptions_summary_def send_def profiles_list_of_def dict_get_def
      fetch_unpaid_bills_def)

lemma serve_account_jane:
  "serve account_jane h (GET API_PROFILES) =
     Response 200 API_PROFILES (Some (JObj [(''profiles'', JArr [john])]))"
  "serve account_jane h (GET API_SUBSCRIBERS) =
     Response 200 API_SUBSCRIBERS (Some (JArr [JObj [(''subscriberId'', JInt 456)]]))"
  "serve account_jane h (GET API_SUBSCRIPTIONS_SUMMARY) =
     Response 200 API_SUBSCRIPTIONS_SUMMARY
       (Some (JObj [(''data'', JArr [JObj [(''totalPointsInOnlineShop'', JFloat 4.38)]])]))"
  "serve account_jane h (GET (API_PROFILE_INVOICE_INFO ''100000001'')) =
     Response 200 (API_PROFILE_INVOICE_INFO ''100000001'') (Some john_invoice)"
  "serve account_jane h (GET (API_PROFILE_INVOICE_INFO ''7'')) =
     Response 200 (API_PROFILE_INVOICE_INFO ''7'') (Some jane_invoice)"
  by (simp_all add: serve_def account_jane_def account_def urls)

lemma unpaid_step_john_utc:
  assumes "\<And>h. t h (GET (API_PROFILE_INVOICE_INFO ''100000001'')) =
             Response 200 u (Some john_invoice)"
  shows "unpaid_step t utc john (s, ub) =
     (s\<lparr>session := session s @ [GET (API_PROFILE_INVOICE_INFO ''100000001'')]\<rparr>,
      Inr (add_bill ''100000001'' (john_bill ''2026-02-16'') ub))"
  using unpaid_step_john [where t = t and s = s and rt = utc and ub = ub, OF assms [of "session s"]]
  by (simp add: utc_offset_examples)

lemma get_data_account_jane_utc:
  "get_data (serve account_jane) utc logged_in =
     (logged_in\<lparr>session :=
          [GET API_PROFILES, GET API_SUBSCRIBERS, GET API_SUBSCRIPTIONS_SUMMARY,
           GET (API_PROFILE_INVOICE_INFO ''100000001'')]\<rparr>,
      Inr (account_snapshot ''2026-02-16''))"
proof -
  let ?s' = "logged_in\<lparr>session :=
          [GET API_PROFILES, GET API_SUBSCRIBERS, GET API_SUBSCRIPTIONS_SUMMARY,
           GET (API_PROFILE_INVOICE_INFO ''100000001'')]\<rparr>"
  have loop: "unpaid_loop (serve account_jane) utc [john]
           (logged_in\<lparr>session := session logged_in @
                [GET API_PROFILES, GET API_SUBSCRIBERS, GET API_SUBSCRIPTIONS_SUMMARY]\<rparr>,
            \<lparr>total_amount = 0, total_count = 0, by_profile = []\<rparr>)
         = (?s', Inr (account_bills ''2026-02-16''))"
    by (simp add: unpaid_step_john_utc [where t = "serve account_jane", OF serve_account_jane(4)] logged_in_fields add_bill_def
        account_bills_def john_bill_def)
  have "get_data (serve account_jane) utc logged_in =
      (?s', build_snapshot ?s' (JArr [john]) (JArr [JObj [(''subscriberId'', JInt 456)]])
        (JObj [(''data'', JArr [JObj [(''totalPointsInOnlineShop'', JFloat 4.38)]])])
        (account_bills ''2026-02-16''))"
    by (rule get_data_authenticated [where t = "serve account_jane",
          OF logged_in_fields(1) serve_account_jane(1-3) loop])
  also have "build_snapshot ?s' (JArr [john]) (JArr [JObj [(''subscriberId'', JInt 456)]])
        (JObj [(''data'', JArr [JObj [(''totalPointsInOnlineShop'', JFloat 4.38)]])])
        (account_bills ''2026-02-16'') = Inr (account_snapshot ''2026-02-16'')"
    by (subst build_snapshot_account)
      (simp_all add: logged_in_fields account_snapshot_def account_bills_def)
  finally show ?thesis .
qed

lemma serve_account_rejected:
  "serve account_rejected h (GET LOGIN_PAGE_URL) = Response 200 login_url_ex None"
  "serve account_rejected h (POST login_url_ex [(''username'', ''user''), (''password'', ''secret'')])
     = Response 200 MYACCOUNT_URL None"
  "serve account_rejected h (GET API_USER_DATA) =
     Response 200 API_USER_DATA (Some user_data_rejected)"
  by (simp_all add: serve_def account_rejected_def urls)

lemma serve_account_login:
  "serve account h (GET LOGIN_PAGE_URL) = Response 200 login_url_ex None"
  "serve account h (POST login_url_ex [(''username'', ''user''), (''password'', ''secret'')])
     = Response 200 MYACCOUNT_URL None"
  "serve account h (GET API_USER_DATA) = Response 200 API_USER_DATA (Some user_data_ok)"
  by (simp_all add: serve_def account_def urls)

lemma authenticate_account:
  "authenticate (serve account) fresh =
     (fresh\<lparr>authenticated := True, sso_id := JInt 12345,
        user_data := JObj [(''ssoId'', JInt 12345), (''username'', JStr ''user'')],
        session := [GET LOGIN_PAGE_URL, login_post, GET API_USER_DATA]\<rparr>, Inr True)"
  by (simp add: authenticate_def send_def fetch_user_data_def verify_user_data_def
      serve_account_login fresh_fields user_data_ok_def dict_get_def login_post_def)


section \<open>The claims\<close>

subsection \<open>Failure of a section fetch (C1)\<close>

lemma build_snapshot_sections:
  assumes "is_dict (user_data s)" and "total_loyalty (JObj sd) = Inr points"
  shows "\<exists>snap. build_snapshot s (JArr ps) (JArr subs) (JObj sd) ub = Inr snap \<and>
           profiles snap = JArr ps \<and> subscribers snap = JArr subs \<and>
           subscriptions_summary snap = dict_get sd ''data'' (JArr [])"
proof -
  from assms(1) obtain ud where "user_data s = JObj ud"
    by (cases "user_data s") (auto simp: is_dict_def)
  with assms(2) show ?thesis
    by (cases "sd = []") (auto simp: build_snapshot_def user_section_def dict_get_def)
qed

lemma serve_account_subscribers_down:
  "serve account_subscribers_down h (GET API_PROFILES) =
     Response 200 API_PROFILES (Some (JObj [(''profiles'', JArr [john])]))"
  "serve account_subscribers_down h (GET API_SUBSCRIBERS) = ConnectionFailed"
  by (simp_all add: serve_def account_subscribers_down_def account_def urls)

lemma serve_account_subscribers_503:
  "serve account_subscribers_503 h (GET API_PROFILES) =
     Response 200 API_PROFILES (Some (JObj [(''profiles'', JArr [john])]))"
  "serve account_subscribers_503 h (GET API_SUBSCRIBERS) = Response 503 API_SUBSCRIBERS None"
  "serve account_subscribers_503 h (GET API_SUBSCRIPTIONS_SUMMARY) =
     Response 200 API_SUBSCRIPTIONS_SUMMARY
       (Some (JObj [(''data'', JArr [JObj [(''totalPointsInOnlineShop'', JFloat 4.38)]])]))"
  by (simp_all add: serve_def account_subscribers_503_def account_def urls)

text \<open>
  C1, as amended. For an authenticated client, when each of the three section fetches
  (profiles, subscribers, subscriptions summary) gets an HTTP response, a response with a
  status other than 200 degrades that section alone to an empty list and the cycle
  continues: \<open>get_data\<close> returns a snapshot in which every other section is what its own
  response carried (a 200 response being well formed: profiles an object whose
  \<^verbatim>\<open>profiles\<close> is a list of objects, subscribers a list, the summary an object whose
  loyalty points add up). A transport error in a section fetch is not covered: it is
  raised out of \<open>get_data\<close>.
\<close>

theorem section_failure_degrades:
  assumes "authenticated s" and "is_dict (user_data s)"
    and "t (session s) (GET API_PROFILES) = Response st1 u1 b1"
    and "t (session s @ [GET API_PROFILES]) (GET API_SUBSCRIBERS) = Response st2 u2 b2"
    and "t (session s @ [GET API_PROFILES, GET API_SUBSCRIBERS]) (GET API_SUBSCRIPTIONS_SUMMARY)
           = Response st3 u3 b3"
    and "st1 = 200 \<Longrightarrow>
           b1 = Some (JObj pd) \<and> dict_get pd ''profiles'' (JArr []) = JArr ps \<and>
           (\<forall>p \<in> set ps. is_dict p)"
    and "st2 = 200 \<Longrightarrow> b2 = Some (JArr subs)"
    and "st3 = 200 \<Longrightarrow> b3 = Some (JObj sd) \<and> total_loyalty (JObj sd) = Inr points"
  shows "\<exists>snap. returned (get_data t rt s) = Some snap \<and>
           profiles snap = (if st1 = 200 then JArr ps else JArr []) \<and>
           subscribers snap = (if st2 = 200 then JArr subs else JArr []) \<and>
           subscriptions_summary snap =
             (if st3 = 200 then dict_get sd ''data'' (JArr []) else JArr [])"
proof -
  define pd' where "pd' = (if st1 = 200 then pd else [])"
  define ps' where "ps' = (if st1 = 200 then ps else [])"
  define subs' where "subs' = (if st2 = 200 then subs else [])"
  define sd' where "sd' = (if st3 = 200 then sd else [])"
  let ?s1 = "s\<lparr>session := session s @ [GET API_PROFILES]\<rparr>"
  let ?s2 = "s\<lparr>session := session s @ [GET API_PROFILES, GET API_SUBSCRIBERS]\<rparr>"
  let ?s3 = "s\<lparr>session := session s @
      [GET API_PROFILES, GET API_SUBSCRIBERS, GET API_SUBSCRIPTIONS_SUMMARY]\<rparr>"
  have ea: "ensure_authenticated t s = (s, Inr ())"
    using assms(1) by (simp add: ensure_authenticated_def)
  have f1: "fetch_profiles t s = (?s1, Inr (JObj pd'))"
    using assms(3,6) by (simp add: fetch_profiles_def send_def pd'_def)
  have f2: "fetch_subscribers t ?s1 = (?s2, Inr (JArr subs'))"
    using assms(4,7) by (simp add: fetch_subscribers_def send_def subs'_def)
  have f3: "fetch_subscriptions_summary t ?s2 = (?s3, Inr (JObj sd'))"
    using assms(5,8) by (simp add: fetch_subscriptions_summary_def send_def sd'_def)
  have pl: "profiles_list_of (JObj pd') = Inr (JArr ps')"
    using assms(6) by (auto simp: profiles_list_of_def pd'_def ps'_def dict_get_def)
  have dicts: "\<forall>p \<in> set ps'. is_dict p"
    using assms(6) by (simp add: ps'_def)
  from unpaid_loop_returns [OF dicts] obtain s4 ub where
    loop: "unpaid_loop t rt ps' (?s3, \<lparr>total_amount = 0, total_count = 0, by_profile = []\<rparr>)
        = (s4, Inr ub)"
    by blast
  then have f4: "fetch_unpaid_bills t rt ?s3 (JArr ps') = (s4, Inr ub)"
    by (simp add: fetch_unpaid_bills_def)
  from unpaid_loop_state [OF loop] assms(2) have ud: "is_dict (user_data s4)" by simp
  have loyalty: "\<exists>points'. total_loyalty (JObj sd') = Inr points'"
    using assms(8) by (auto simp: sd'_def total_loyalty_def)
  then obtain points' where "total_loyalty (JObj sd') = Inr points'" by blast
  from build_snapshot_sections [OF ud this] obtain snap where
    snap: "build_snapshot s4 (JArr ps') (JArr subs') (JObj sd') ub = Inr snap"
    and fields: "profiles snap = JArr ps'" "subscribers snap = JArr subs'"
      "subscriptions_summary snap = dict_get sd' ''data'' (JArr [])"
    by blast
  have "get_data t rt s = (s4, Inr snap)"
    by (simp add: get_data_def ea f1 f2 f3 pl f4 snap)
  with fields show ?thesis
    by (auto simp: returned_def ps'_def subs'_def sd'_def dict_get_def)
qed

theorem section_failure_degrades_witness:
  "authenticated logged_in \<and> is_dict (user_data logged_in) \<and>
   serve account_subscribers_503 (session logged_in) (GET API_PROFILES) =
     Response 200 API_PROFILES (Some (JObj [(''profiles'', JArr [john])])) \<and>
   serve account_subscribers_503 (session logged_in @ [GET API_PROFILES]) (GET API_SUBSCRIBERS) =
     Response 503 API_SUBSCRIBERS None \<and>
   serve account_subscribers_503 (session logged_in @ [GET API_PROFILES, GET API_SUBSCRIBERS])
     (GET API_SUBSCRIPTIONS_SUMMARY) =
     Response 200 API_SUBSCRIPTIONS_SUMMARY
       (Some (JObj [(''data'', JArr [JObj [(''totalPointsInOnlineShop'', JFloat 4.38)]])])) \<and>
   list_all is_dict [john] \<and>
   total_loyalty (JObj [(''data'', JArr [JObj [(''totalPointsInOnlineShop'', JFloat 4.38)]])])
     = Inr 4.38 \<and>
   (\<exists>snap. returned (get_data (serve account_subscribers_503) utc logged_in) = Some snap \<and>
      profiles snap = JArr [john] \<and> subscribers snap = JArr [] \<and>
      subscriptions_summary snap = JArr [JObj [(''totalPointsInOnlineShop'', JFloat 4.38)]])"
proof -
  let ?sd = "[(''data'', JArr [JObj [(''totalPointsInOnlineShop'', JFloat 4.38)]])]"
  have dict: "is_dict (user_data logged_in)" by (simp add: logged_in_fields is_dict_def)
  have john: "is_dict john" by (simp add: john_def is_dict_def)
  have loyal: "total_loyalty (JObj ?sd) = Inr 4.38"
    by (simp add: total_loyalty_def dict_get_def)
  have "\<exists>snap. returned (get_data (serve account_subscribers_503) utc logged_in) = Some snap \<and>
      profiles snap = (if (200::int) = 200 then JArr [john] else JArr []) \<and>
      subscribers snap = (if (503::int) = 200 then JArr [] else JArr []) \<and>
      subscriptions_summary snap = (if (200::int) = 200 then dict_get ?sd ''data'' (JArr []) else JArr [])"
    by (rule section_failure_degrades [where t = "serve account_subscribers_503"
          and s = logged_in and pd = "[(''profiles'', JArr [john])]" and points = "4.38"
          and ?u1.0 = API_PROFILES and ?u2.0 = API_SUBSCRIBERS and ?b2.0 = None
          and ?u3.0 = API_SUBSCRIPTIONS_SUMMARY])
      (simp_all add: logged_in_fields is_dict_def serve_account_subscribers_503 dict_get_def
        john_def loyal [simplified])
  with dict john loyal show ?thesis
    by (simp add: logged_in_fields serve_account_subscribers_503 dict_get_def)
qed

text \<open>
  The claim as stated fails for a transport error: when the subscribers fetch raises
  \<^verbatim>\<open>aiohttp.ClientError\<close> while the profiles fetch succeeds, \<open>get_data\<close> raises and there is
  no snapshot.
\<close>

theorem section_failure_counterexample:
  "serve account_subscribers_down [] (GET API_PROFILES) =
     Response 200 API_PROFILES (Some (JObj [(''profiles'', JArr [john])])) \<and>
   serve account_subscribers_down [GET API_PROFILES] (GET API_SUBSCRIBERS) = ConnectionFailed \<and>
   raised (get_data (serve account_subscribers_down) utc logged_in) = Some ClientError \<and>
   returned (get_data (serve account_subscribers_down) utc logged_in) = None"
  by (simp add: get_data_def ensure_authenticated_def logged_in_fields fetch_profiles_def
      fetch_subscribers_def send_def serve_account_subscribers_down raised_def returned_def)

subsection \<open>Unpaid amounts are positive (C2)\<close>

lemma invoice_entry_needs_positive:
  "invoice_entry rt p resp = Inr (Some b) \<Longrightarrow> py_get resp ''data'' JNull = Inr (JObj idata) \<Longrightarrow>
     \<not> balance_not_positive idata"
  by (auto simp: invoice_entry_def balance_not_positive_def dict_get_def py_or_def
      split: sum.splits if_splits option.splits)

lemma unpaid_step_not_positive:
  assumes "is_dict profile"
    and "t (session s) (invoice_request rt (profile_id_of profile)) = Response 200 u (Some resp)"
    and "py_get resp ''data'' JNull = Inr (JObj idata)"
    and "balance_not_positive idata"
  shows "returned (unpaid_step t rt profile (s, ub)) = Some ub"
proof -
  from assms(1) obtain p where p: "profile = JObj p" by (cases profile) (auto simp: is_dict_def)
  have "\<And>b. invoice_entry rt p resp \<noteq> Inr (Some b)"
    using invoice_entry_needs_positive assms(3,4) by blast
  with assms(2) p show ?thesis
    by (auto simp: returned_def unpaid_step_def send_def invoice_request_def profile_id_of_def Let_def
        split: sum.splits option.splits)
qed

lemma get_data_positive:
  assumes "returned (get_data t rt s) = Some snap"
  shows "\<forall>kb \<in> set (by_profile (unpaid_bills snap)). 0 < amount (snd kb)"
proof -
  from assms obtain s' where "get_data t rt s = (s', Inr snap)"
    by (cases "get_data t rt s") (auto simp: returned_def split: sum.splits)
  from get_data_returned [OF this] obtain s3 ps where
    "unpaid_loop t rt ps (s3, \<lparr>total_amount = 0, total_count = 0, by_profile = []\<rparr>)
       = (s', Inr (unpaid_bills snap))"
    by blast
  from unpaid_loop_positive [OF this] show ?thesis by simp
qed

text \<open>
  C2. Every record of \<open>by_profile\<close> in a snapshot that \<open>get_data\<close> returns has an amount
  strictly greater than zero; and the loop iteration for a profile whose fetched
  \<^verbatim>\<open>totalBalanceAmount\<close> is zero, negative, absent or null leaves the unpaid bills as they
  were, so no record is written for it.
\<close>

theorem unpaid_amounts_positive:
  "(returned (get_data t rt s) = Some snap \<longrightarrow>
      (\<forall>kb \<in> set (by_profile (unpaid_bills snap)). 0 < amount (snd kb))) \<and>
   (is_dict profile \<and>
    t (session s) (invoice_request rt (profile_id_of profile)) = Response 200 u (Some resp) \<and>
    py_get resp ''data'' JNull = Inr (JObj idata) \<and> balance_not_positive idata \<longrightarrow>
      returned (unpaid_step t rt profile (s, ub)) = Some ub)"
  using get_data_positive unpaid_step_not_positive by blast

theorem unpaid_amounts_positive_witness:
  "returned (get_data (serve account_jane) utc logged_in) = Some (account_snapshot ''2026-02-16'') \<and>
   list_all (\<lambda>kb. 0 < amount (snd kb))
     (by_profile (unpaid_bills (account_snapshot ''2026-02-16''))) \<and>
   is_dict jane \<and>
   serve account_jane (session logged_in) (invoice_request utc (profile_id_of jane)) =
     Response 200 (API_PROFILE_INVOICE_INFO ''7'') (Some jane_invoice) \<and>
   py_get jane_invoice ''data'' JNull = Inr (JObj [(''totalBalanceAmount'', JFloat 0)]) \<and>
   balance_not_positive [(''totalBalanceAmount'', JFloat 0)] \<and>
   returned (unpaid_step (serve account_jane) utc jane (logged_in, account_bills ''2026-02-16''))
     = Some (account_bills ''2026-02-16'')"
proof -
  have ret: "returned (get_data (serve account_jane) utc logged_in)
      = Some (account_snapshot ''2026-02-16'')"
    by (simp add: returned_def get_data_account_jane_utc)
  have dict: "is_dict jane" by (simp add: is_dict_def jane_def)
  have req: "invoice_request utc (profile_id_of jane) = GET (API_PROFILE_INVOICE_INFO ''7'')"
    by (simp add: invoice_request_def profile_id_of_def jane_def dict_get_def show_int_def
        show_nat.simps digit_char_def)
  have resp: "serve account_jane (session logged_in) (invoice_request utc (profile_id_of jane)) =
     Response 200 (API_PROFILE_INVOICE_INFO ''7'') (Some jane_invoice)"
    by (simp only: req serve_account_jane)
  have data: "py_get jane_invoice ''data'' JNull = Inr (JObj [(''totalBalanceAmount'', JFloat 0)])"
    by (simp add: jane_invoice_def dict_get_def)
  have bal: "balance_not_positive [(''totalBalanceAmount'', JFloat 0)]"
    by (simp add: balance_not_positive_def)
  from unpaid_amounts_positive [of "serve account_jane" utc logged_in
      "account_snapshot ''2026-02-16''" jane "API_PROFILE_INVOICE_INFO ''7''" jane_invoice
      "[(''totalBalanceAmount'', JFloat 0)]" "account_bills ''2026-02-16''"]
    ret dict resp data bal
  show ?thesis by (simp add: list_all_iff)
qed

subsection \<open>The unpaid totals (C3)\<close>






subsection \<open>Failure of one invoice fetch (C4)\<close>






subsection \<open>Authentication that returns false (C5)\<close>



subsection \<open>Authentication inside the poll cycle (C6)\<close>

lemma serve_account_unreachable:
  "serve account_unreachable h (GET LOGIN_PAGE_URL) = ConnectionFailed"
  by (simp add: serve_def account_unreachable_def urls)

lemma serve_account_rejected_sections:
  "serve account_rejected h (GET API_PROFILES) = Response 404 [] None"
  "serve account_rejected h (GET API_SUBSCRIBERS) = Response 404 [] None"
  "serve account_rejected h (GET API_SUBSCRIPTIONS_SUMMARY) = Response 404 [] None"
  by (simp_all add: serve_def account_rejected_def urls)

lemma authenticate_rejected:
  "authenticate (serve account_rejected) fresh =
     (fresh\<lparr>session := [GET LOGIN_PAGE_URL, login_post, GET API_USER_DATA]\<rparr>, Inr False)"
  by (simp add: authenticate_def send_def fetch_user_data_def verify_user_data_def
      serve_account_rejected fresh_fields user_data_rejected_def dict_get_def login_post_def)

lemma get_data_rejected:
  "get_data (serve account_rejected) utc fresh =
     (fresh\<lparr>session := [GET LOGIN_PAGE_URL, login_post, GET API_USER_DATA, GET API_PROFILES,
                          GET API_SUBSCRIBERS, GET API_SUBSCRIPTIONS_SUMMARY]\<rparr>,
      Inr empty_snapshot)"
  by (simp add: get_data_def ensure_authenticated_def authenticate_rejected fresh_fields
      fetch_profiles_def fetch_subscribers_def fetch_subscriptions_summary_def send_def
      serve_account_rejected_sections profiles_list_of_def fetch_unpaid_bills_def
      build_snapshot_def total_loyalty_def user_section_def dict_get_def empty_snapshot_def)

text \<open>
  C6, as amended. When the session is not authenticated, \<open>get_data\<close> first runs
  \<open>authenticate\<close>. If that raises (a transport error, or a verification request answered
  with a status other than 200), \<open>get_data\<close> raises the same exception and sends no
  further request. If it returns, true or false, \<open>get_data\<close> goes on: its next request is
  the profiles fetch.
\<close>

theorem authentication_in_get_data:
  assumes "\<not> authenticated s"
  shows "(raised (authenticate t s) = Some e \<longrightarrow>
            get_data t rt s = (fst (authenticate t s), Inl e)) \<and>
         (returned (authenticate t s) = Some ok \<longrightarrow>
            take (Suc (length (session (fst (authenticate t s)))))
              (session (fst (get_data t rt s)))
            = session (fst (authenticate t s)) @ [GET API_PROFILES])"
proof -
  obtain s1 r1 where a: "authenticate t s = (s1, r1)" by (cases "authenticate t s")
  obtain s' r where gd: "get_data t rt s = (s', r)" by (cases "get_data t rt s")
  have first: "raised (authenticate t s) = Some e \<longrightarrow> get_data t rt s = (s1, Inl e)"
    using assms a
    by (auto simp: raised_def get_data_def ensure_authenticated_def split: sum.splits)
  have second: "returned (authenticate t s) = Some ok \<longrightarrow>
      take (Suc (length (session s1))) (session s') = session s1 @ [GET API_PROFILES]"
  proof
    assume "returned (authenticate t s) = Some ok"
    with a have "r1 = Inr ok" by (auto simp: returned_def split: sum.splits)
    with assms a have ea: "ensure_authenticated t s = (s1, Inr ())"
      by (simp add: ensure_authenticated_def)
    from get_data_after_authentication [OF gd] ea
    obtain xs where "session s' = session s1 @ GET API_PROFILES # xs" by auto
    then show "take (Suc (length (session s1))) (session s') = session s1 @ [GET API_PROFILES]"
      by simp
  qed
  from first second a gd show ?thesis by simp
qed

theorem authentication_in_get_data_witness:
  "\<not> authenticated fresh \<and>
   raised (authenticate (serve account_unreachable) fresh) = Some ClientError \<and>
   get_data (serve account_unreachable) utc fresh =
     (fst (authenticate (serve account_unreachable) fresh), Inl ClientError) \<and>
   session (fst (get_data (serve account_unreachable) utc fresh)) = [GET LOGIN_PAGE_URL] \<and>
   returned (authenticate (serve account) fresh) = Some True \<and>
   take (Suc (length (session (fst (authenticate (serve account) fresh)))))
     (session (fst (get_data (serve account) utc fresh)))
   = session (fst (authenticate (serve account) fresh)) @ [GET API_PROFILES]"
proof -
  have down: "authenticate (serve account_unreachable) fresh =
      (fresh\<lparr>session := [GET LOGIN_PAGE_URL]\<rparr>, Inl ClientError)"
    by (simp add: authenticate_def send_def serve_account_unreachable fresh_fields)
  have r: "raised (authenticate (serve account_unreachable) fresh) = Some ClientError"
    by (simp add: down raised_def)
  have ok: "returned (authenticate (serve account) fresh) = Some True"
    by (simp add: authenticate_account returned_def)
  from authentication_in_get_data [of fresh "serve account_unreachable" ClientError utc]
    authentication_in_get_data [of fresh "serve account" _ utc True]
    r ok down
  show ?thesis by (simp add: fresh_fields)
qed

text \<open>
  The claim as stated fails for rejected credentials: \<open>authenticate\<close> returns false, and
  \<open>get_data\<close> still fetches the three sections and returns a snapshot.
\<close>

theorem authentication_in_get_data_counterexample:
  "\<not> authenticated fresh \<and>
   returned (authenticate (serve account_rejected) fresh) = Some False \<and>
   returned (get_data (serve account_rejected) utc fresh) = Some empty_snapshot \<and>
   session (fst (get_data (serve account_rejected) utc fresh)) =
     [GET LOGIN_PAGE_URL, login_post, GET API_USER_DATA, GET API_PROFILES, GET API_SUBSCRIBERS,
      GET API_SUBSCRIPTIONS_SUMMARY]"
  by (simp add: authenticate_rejected get_data_rejected returned_def fresh_fields)

subsection \<open>Which invoice fetches are issued (C7)\<close>






subsection \<open>The example bill (C8)\<close>

text \<open>
  C8, as amended. For the profile \<^verbatim>\<open>{id: 100000001, name: "John Doe"}\<close> whose invoice
  fetch answers 200 with \<^verbatim>\<open>{data: {totalBalanceAmount: 129.41, dueDate: 1771200000000}}\<close>,
  and no other profile, the unpaid bills have \<^verbatim>\<open>total_amount\<close> 129.41 and one entry under
  the key \<^verbatim>\<open>"100000001"\<close> with amount 129.41. Its due date is the local calendar date of
  the instant 2026-02-16T00:00:00Z: \<^verbatim>\<open>"2026-02-16"\<close> where local time is at or ahead of UTC,
  \<^verbatim>\<open>"2026-02-15"\<close> where it is behind UTC (offsets of less than a day).
\<close>

theorem example_unpaid_bill:
  assumes "t (session s) (GET (API_PROFILE_INVOICE_INFO ''100000001'')) =
             Response 200 u (Some john_invoice)"
    and "- 86400 \<le> utc_offset rt 1771200000" and "utc_offset rt 1771200000 < 86400"
  shows "returned (fetch_unpaid_bills t rt s (JArr [john])) =
     Some \<lparr>total_amount = 129.41, total_count = 1,
           by_profile =
             [(''100000001'',
               \<lparr>amount = 129.41, services = JFloat 0, installments = JFloat 0,
                due_date = Some (if 0 \<le> utc_offset rt 1771200000 then ''2026-02-16''
                                 else ''2026-02-15''),
                has_invoices = JBool False, profile_name = JStr ''John Doe''\<rparr>)]\<rparr>"
  using fetch_unpaid_john [where t = t and s = s and rt = rt, OF assms]
  by (simp add: returned_def account_bills_def john_bill_def)

theorem example_unpaid_bill_witness:
  "serve account (session logged_in) (GET (API_PROFILE_INVOICE_INFO ''100000001'')) =
     Response 200 (API_PROFILE_INVOICE_INFO ''100000001'') (Some john_invoice) \<and>
   - 86400 \<le> utc_offset new_york 1771200000 \<and> utc_offset new_york 1771200000 < 86400 \<and>
   returned (fetch_unpaid_bills (serve account) new_york logged_in (JArr [john])) =
     Some \<lparr>total_amount = 129.41, total_count = 1,
           by_profile =
             [(''100000001'',
               \<lparr>amount = 129.41, services = JFloat 0, installments = JFloat 0,
                due_date = Some ''2026-02-15'',
                has_invoices = JBool False, profile_name = JStr ''John Doe''\<rparr>)]\<rparr>"
  using example_unpaid_bill [where t = "serve account" and s = logged_in and rt = new_york
      and u = "API_PROFILE_INVOICE_INFO ''100000001''"]
  by (simp add: serve_account utc_offset_examples)

text \<open>
  The claim as stated fails where local time is UTC (and in Romania, two hours ahead):
  the due date of the example is \<^verbatim>\<open>"2026-02-16"\<close>, not \<^verbatim>\<open>"2026-02-15"\<close>.
\<close>

theorem example_due_date_counterexample:
  "returned (fetch_unpaid_bills (serve account) utc logged_in (JArr [john])) =
     Some \<lparr>total_amount = 129.41, total_count = 1,
           by_profile =
             [(''100000001'',
               \<lparr>amount = 129.41, services = JFloat 0, installments = JFloat 0,
                due_date = Some ''2026-02-16'',
                has_invoices = JBool False, profile_name = JStr ''John Doe''\<rparr>)]\<rparr>"
  using fetch_unpaid_john [where t = "serve account" and s = logged_in and rt = utc
      and u = "API_PROFILE_INVOICE_INFO ''100000001''"]
  by (simp add: serve_account utc_offset_examples returned_def account_bills_def john_bill_def)

subsection \<open>Identity and the authenticated flag (C9)\<close>

lemma authenticate_identity:
  assumes "authenticate t s = (s', r)" and "identity_implies_authenticated s"
  shows "identity_implies_authenticated s'"
proof -
  have sent: "\<And>s1 q. identity_implies_authenticated (s1\<lparr>session := q\<rparr>)
      = identity_implies_authenticated s1"
    by (simp add: identity_implies_authenticated_def has_identity_def)
  have verify: "\<And>s3 ud s4 r4. verify_user_data s3 ud = (s4, r4) \<Longrightarrow>
      identity_implies_authenticated s3 \<Longrightarrow> identity_implies_authenticated s4"
    using verify_user_data_state
    by (fastforce simp: identity_implies_authenticated_def has_identity_def)
  from assms show ?thesis
    by (auto simp: authenticate_def fetch_user_data_def send_def sent
        split: response.splits if_splits option.splits
        intro: verify)
qed

lemma ensure_authenticated_identity:
  assumes "ensure_authenticated t s = (s', r)" and "identity_implies_authenticated s"
  shows "identity_implies_authenticated s'"
proof (cases "authenticated s")
  case True
  with assms show ?thesis by (simp add: ensure_authenticated_def)
next
  case False
  obtain s1 r1 where a: "authenticate t s = (s1, r1)" by (cases "authenticate t s")
  with assms False have "s' = s1" by (auto simp: ensure_authenticated_def split: sum.splits)
  with authenticate_identity [OF a assms(2)] show ?thesis by simp
qed

lemma get_data_identity:
  assumes "identity_implies_authenticated s"
  shows "identity_implies_authenticated (fst (get_data t rt s))"
proof -
  obtain s' r where gd: "get_data t rt s = (s', r)" by (cases "get_data t rt s")
  from get_data_after_authentication [OF gd] obtain s0 r0 where
    ea: "ensure_authenticated t s = (s0, r0)"
    and same: "authenticated s' = authenticated s0" "sso_id s' = sso_id s0"
      "user_data s' = user_data s0"
    by blast
  from ensure_authenticated_identity [OF ea assms] same gd show ?thesis
    by (simp add: identity_implies_authenticated_def has_identity_def)
qed

lemma get_profile_invoices_identity:
  assumes "identity_implies_authenticated s"
  shows "identity_implies_authenticated (fst (get_profile_invoices t s i))"
proof -
  obtain s0 r0 where ea: "ensure_authenticated t s = (s0, r0)"
    by (cases "ensure_authenticated t s")
  from ensure_authenticated_identity [OF ea assms] ea show ?thesis
    by (auto simp: get_profile_invoices_def send_def identity_implies_authenticated_def
        has_identity_def split: sum.splits response.splits option.splits)
qed

lemma get_profile_transactions_identity:
  assumes "identity_implies_authenticated s"
  shows "identity_implies_authenticated (fst (get_profile_transactions t s i))"
proof -
  obtain s0 r0 where ea: "ensure_authenticated t s = (s0, r0)"
    by (cases "ensure_authenticated t s")
  from ensure_authenticated_identity [OF ea assms] ea show ?thesis
    by (auto simp: get_profile_transactions_def send_def identity_implies_authenticated_def
        has_identity_def split: sum.splits response.splits option.splits)
qed

text \<open>
  C9, as amended. After construction and after every operation of the client
  (\<open>authenticate\<close>, \<open>get_data\<close>, \<open>get_profile_invoices\<close>, \<open>get_profile_transactions\<close>, whether
  it returns or raises), a stored identity implies that the authenticated flag is true.
  The converse is not an invariant.
\<close>

theorem identity_invariant:
  "identity_implies_authenticated (init sess usr pwd) \<and>
   (identity_implies_authenticated s \<longrightarrow>
      identity_implies_authenticated (fst (authenticate t s)) \<and>
      identity_implies_authenticated (fst (get_data t rt s)) \<and>
      identity_implies_authenticated (fst (get_profile_invoices t s i)) \<and>
      identity_implies_authenticated (fst (get_profile_transactions t s i)))"
proof -
  have "identity_implies_authenticated (init sess usr pwd)"
    by (simp add: identity_implies_authenticated_def has_identity_def init_def)
  moreover have "identity_implies_authenticated s \<Longrightarrow>
      identity_implies_authenticated (fst (authenticate t s))"
    using authenticate_identity [of t s] by (cases "authenticate t s") simp
  ultimately show ?thesis
    using get_data_identity get_profile_invoices_identity get_profile_transactions_identity
    by blast
qed

theorem identity_invariant_witness:
  "identity_implies_authenticated fresh \<and>
   identity_implies_authenticated (fst (authenticate (serve account) fresh)) \<and>
   has_identity (fst (authenticate (serve account) fresh)) \<and>
   authenticated (fst (authenticate (serve account) fresh)) \<and>
   identity_implies_authenticated (fst (get_data (serve account) utc fresh)) \<and>
   identity_implies_authenticated (fst (get_profile_invoices (serve account) fresh 100000001)) \<and>
   identity_implies_authenticated (fst (get_profile_transactions (serve account) fresh 100000001))"
  using identity_invariant [of "[]" "''user''" "''secret''" fresh "serve account" utc 100000001]
  by (simp add: fresh_def [symmetric] authenticate_account has_identity_def)

lemma serve_account_anonymous:
  "serve account_anonymous h (GET LOGIN_PAGE_URL) = Response 200 login_url_ex None"
  "serve account_anonymous h (POST login_url_ex [(''username'', ''user''), (''password'', ''secret'')])
     = Response 200 MYACCOUNT_URL None"
  "serve account_anonymous h (GET API_USER_DATA) =
     Response 200 API_USER_DATA (Some user_data_anonymous)"
  by (simp_all add: serve_def account_anonymous_def account_def urls)

text \<open>
  The claim as stated fails when the verification answers \<^verbatim>\<open>isUserLogged: true\<close> without a
  \<^verbatim>\<open>currentUser\<close>: \<open>authenticate\<close> returns true and sets the flag, and the stored identity
  is still the empty one of \<^verbatim>\<open>__init__\<close>.
\<close>

theorem identity_invariant_counterexample:
  "returned (authenticate (serve account_anonymous) fresh) = Some True \<and>
   authenticated (fst (authenticate (serve account_anonymous) fresh)) \<and>
   sso_id (fst (authenticate (serve account_anonymous) fresh)) = JNull \<and>
   user_data (fst (authenticate (serve account_anonymous) fresh)) = JObj [] \<and>
   \<not> has_identity (fst (authenticate (serve account_anonymous) fresh))"
  by (simp add: authenticate_def send_def fetch_user_data_def verify_user_data_def
      serve_account_anonymous fresh_fields user_data_anonymous_def dict_get_def returned_def
      has_identity_def)

subsection \<open>Authentication that raises (C10)\<close>

text \<open>
  C10. When the login-page GET and the credential POST both answer 200 and the
  verification request to the user-data endpoint answers with another status,
  \<open>authenticate\<close> raises (it does not return false) and the authenticated flag stays false.
\<close>

theorem authenticate_raises_on_verification_failure:
  assumes "\<not> authenticated s"
    and "t (session s) (GET LOGIN_PAGE_URL) = Response 200 login_url b1"
    and "t (session s @ [GET LOGIN_PAGE_URL])
           (POST login_url [(''username'', username s), (''password'', password s)])
         = Response 200 final_url b2"
    and "t (session s @ [GET LOGIN_PAGE_URL,
              POST login_url [(''username'', username s), (''password'', password s)]])
           (GET API_USER_DATA) = Response st3 u3 b3"
    and "st3 \<noteq> 200"
  shows "raised (authenticate t s) = Some (Exception ''Failed to fetch user data'' st3) \<and>
         returned (authenticate t s) = None \<and>
         \<not> authenticated (fst (authenticate t s))"
  using assms
  by (simp add: authenticate_def send_def raised_def returned_def fetch_user_data_def)

lemma serve_account_user_data_500:
  "serve account_user_data_500 h (GET LOGIN_PAGE_URL) = Response 200 login_url_ex None"
  "serve account_user_data_500 h
     (POST login_url_ex [(''username'', ''user''), (''password'', ''secret'')])
     = Response 200 MYACCOUNT_URL None"
  "serve account_user_data_500 h (GET API_USER_DATA) = Response 500 API_USER_DATA None"
  by (simp_all add: serve_def account_user_data_500_def account_def urls)

theorem authenticate_raises_on_verification_failure_witness:
  "\<not> authenticated fresh \<and>
   serve account_user_data_500 (session fresh) (GET LOGIN_PAGE_URL)
     = Response 200 login_url_ex None \<and>
   serve account_user_data_500 (session fresh @ [GET LOGIN_PAGE_URL])
     (POST login_url_ex [(''username'', username fresh), (''password'', password fresh)])
     = Response 200 MYACCOUNT_URL None \<and>
   serve account_user_data_500
     (session fresh @ [GET LOGIN_PAGE_URL,
        POST login_url_ex [(''username'', username fresh), (''password'', password fresh)]])
     (GET API_USER_DATA) = Response 500 API_USER_DATA None \<and>
   (500 :: int) \<noteq> 200 \<and>
   raised (authenticate (serve account_user_data_500) fresh)
     = Some (Exception ''Failed to fetch user data'' 500) \<and>
   returned (authenticate (serve account_user_data_500) fresh) = None \<and>
   \<not> authenticated (fst (authenticate (serve account_user_data_500) fresh))"
  using authenticate_raises_on_verification_failure [where t = "serve account_user_data_500"
      and s = fresh and login_url = login_url_ex and ?b1.0 = None and final_url = MYACCOUNT_URL
      and ?b2.0 = None and ?st3.0 = 500 and ?u3.0 = API_USER_DATA and ?b3.0 = None]
  by (simp add: fresh_fields serve_account_user_data_500)

end
